theory Spec2Isabelle
  imports Main "HOL-Library.AList"
begin

section \<open>The syntax tree\<close>

text \<open>
  The fragment of the Babel 7 tree on which the handlers of \<^verbatim>\<open>hoist.js\<close> are
  embedded. Node kinds keep their Babel names. A function body is the statement list of
  its block; source locations are left out.
\<close>

datatype import_specifier =
    ImportDefaultSpecifier string
  | ImportNamespaceSpecifier string
  | ImportSpecifier string string

datatype export_specifier =
    ExportSpecifier string string
  | ExportDefaultSpecifier string
  | ExportNamespaceSpecifier string

datatype expr =
    Identifier string
  | StringLiteral string
  | NumericLiteral int
  | BooleanLiteral bool
  | ThisExpression
  | MemberExpression expr expr bool
  | CallExpression expr "expr list"
  | AssignmentExpression expr expr
  | UnaryExpression string expr
  | AwaitExpression expr
  | ConditionalExpression expr expr expr
  | LogicalExpression string expr expr
  | SequenceExpression "expr list"
  | FunctionExpression "string option" "expr list" "stmt list"
  | ArrowFunctionExpression "expr list" "stmt list"
  | ObjectExpression "property list"
  | ObjectPattern "property list"
and property =
    ObjectProperty expr expr bool
  | RestElement expr
and stmt =
    ExpressionStatement expr
  | VariableDeclaration string "declarator list"
  | ReturnStatement "expr option"
  | FunctionDeclaration string "expr list" "stmt list"
  | IfStatement expr stmt "stmt option"
  | BlockStatement "stmt list"
  | ImportDeclaration "import_specifier list" string
  | ExportNamedDeclaration "stmt option" "export_specifier list" "string option"
  | ExportDefaultDeclaration expr
  | ExportAllDeclaration string
and declarator =
    VariableDeclarator expr "expr option"

text \<open>What a path's \<^verbatim>\<open>parent\<close> can be.\<close>

datatype node =
    Expr expr
  | Stmt stmt
  | Prop property
  | Declarator declarator
  | ExportSpec export_specifier bool
  | Program
  | File

text \<open>
  The root of the tree the transform receives: the directives and the body of the
  program node.
\<close>

record program =
  directives :: "string list"
  body :: "stmt list"


section \<open>Assets, dependencies and symbol tables\<close>

text \<open>
  A symbol table maps an exported name to its entry, in insertion order (a JavaScript
  \<^verbatim>\<open>Map\<close>); \<^verbatim>\<open>None\<close> is a table that \<^verbatim>\<open>ensure()\<close> has not materialised yet.
\<close>

record symbol =
  local_name :: string
  isWeak :: bool

type_synonym symbols = "(string \<times> symbol) list option"

text \<open>
  Modelled from the spec: the symbol-table operations of the asset API, which live in
  the core and not in this file (section 3, "Symbol table": \<^verbatim>\<open>ensure()\<close>
  materialises an empty table if none exists; the table maps an exported name to
  \<^verbatim>\<open>{local, loc, isWeak}\<close>, supports reverse lookup by local name and enumeration of
  the exported names). \<^verbatim>\<open>hoist.js\<close> calls \<^verbatim>\<open>set\<close> only after \<^verbatim>\<open>ensure()\<close>.
\<close>

definition ensure :: "symbols \<Rightarrow> symbols" where
  "ensure t = (case t of None \<Rightarrow> Some [] | Some xs \<Rightarrow> Some xs)"

definition entries :: "symbols \<Rightarrow> (string \<times> symbol) list" where
  "entries t = (case t of None \<Rightarrow> [] | Some xs \<Rightarrow> xs)"

definition symbols_set :: "string \<Rightarrow> string \<Rightarrow> bool \<Rightarrow> symbols \<Rightarrow> symbols" where
  "symbols_set exported loc weak t =
     Some (AList.update exported \<lparr>local_name = loc, isWeak = weak\<rparr> (entries t))"


definition symbols_delete :: "string \<Rightarrow> symbols \<Rightarrow> symbols" where
  "symbols_delete exported t = map_option (AList.delete exported) t"

definition exportSymbols :: "symbols \<Rightarrow> string list" where
  "exportSymbols t = map fst (entries t)"

definition hasExportSymbol :: "symbols \<Rightarrow> string \<Rightarrow> bool" where
  "hasExportSymbol t exported = (exported \<in> set (exportSymbols t))"

definition hasLocalSymbol :: "symbols \<Rightarrow> string \<Rightarrow> bool" where
  "hasLocalSymbol t loc = (loc \<in> set (map (local_name \<circ> snd) (entries t)))"

record dependency =
  dep_id :: string
  moduleSpecifier :: string
  isAsync :: bool
  dep_shouldWrap :: bool
  dep_hasDefaultImport :: bool
  dep_isCommonJS :: bool
  dep_symbols :: symbols

text \<open>
  The asset: its identity, its path, the environment bit \<^verbatim>\<open>env.isNode()\<close>, the keys
  of \<^verbatim>\<open>meta\<close> that \<^verbatim>\<open>hoist.js\<close> reads or writes (an absent boolean key is
  \<^verbatim>\<open>False\<close>), its symbol table and its dependencies. \<^verbatim>\<open>newDependencyId\<close> is the id
  the core gives to a dependency added with \<^verbatim>\<open>addDependency\<close> for a specifier.
\<close>

record asset =
  asset_id :: string
  filePath :: string
  isSource :: bool
  env_isNode :: bool
  meta_id :: "string option"
  meta_exportsIdentifier :: "string option"
  meta_isCommonJS :: bool
  meta_isES6Module :: bool
  meta_resolveExportsBailedOut :: bool
  asset_symbols :: symbols
  dependencies :: "dependency list"
  newDependencyId :: "string \<Rightarrow> string"

text \<open>
  Modelled from the spec: \<^verbatim>\<open>asset.addDependency\<close> of the asset API (section 6), used
  by the pre-scan to add the self-dependency whose table holds \<^verbatim>\<open>"*" \<rightarrow> "@exports"\<close>
  (section 4.1). The new dependency is not asynchronous and comes last.
\<close>

definition addDependency :: "string \<Rightarrow> (string \<times> symbol) list \<Rightarrow> asset \<Rightarrow> asset" where
  "addDependency spec syms a =
     a\<lparr>dependencies := dependencies a @
        [\<lparr>dep_id = newDependencyId a spec, moduleSpecifier = spec, isAsync = False,
          dep_shouldWrap = False, dep_hasDefaultImport = False, dep_isCommonJS = False,
          dep_symbols = Some syms\<rparr>]\<rparr>"

text \<open>\<^verbatim>\<open>basename\<close> of Node's \<^verbatim>\<open>path\<close>: what follows the last slash.\<close>

definition basename :: "string \<Rightarrow> string" where
  "basename fp = rev (takeWhile (\<lambda>c. c \<noteq> CHR ''/'') (rev fp))"

text \<open>
  Modelled from the spec: \<^verbatim>\<open>getName\<close> of \<^verbatim>\<open>./utils\<close> (not in this file), after the
  naming scheme of section 4.2: \<^verbatim>\<open>$<asset.id>$<type>\<close> followed by \<^verbatim>\<open>$<part>\<close> for each
  further part. The scheme normalises the result to a valid identifier; asset ids and
  parts are taken identifier-shaped here, where that normalisation changes nothing.
  \<^verbatim>\<open>getIdentifier\<close> and \<^verbatim>\<open>getExportIdentifier\<close> wrap the name into an identifier node.
\<close>

definition getName :: "asset \<Rightarrow> string \<Rightarrow> string list \<Rightarrow> string" where
  "getName a ty rest = ''$'' @ asset_id a @ ''$'' @ ty @ concat (map (\<lambda>r. ''$'' @ r) rest)"

definition getIdentifier :: "asset \<Rightarrow> string \<Rightarrow> string list \<Rightarrow> expr" where
  "getIdentifier a ty rest = Identifier (getName a ty rest)"

definition getExportIdentifier :: "asset \<Rightarrow> string \<Rightarrow> expr" where
  "getExportIdentifier a name = getIdentifier a ''export'' [name]"

section \<open>Babel: node tests\<close>

fun isIdentifier :: "expr \<Rightarrow> bool" where
  "isIdentifier (Identifier n) = True"
| "isIdentifier e = False"

fun isIdentifierNamed :: "expr \<Rightarrow> string \<Rightarrow> bool" where
  "isIdentifierNamed (Identifier n) name = (n = name)"
| "isIdentifierNamed e name = False"

fun isStringLiteral :: "expr \<Rightarrow> bool" where
  "isStringLiteral (StringLiteral s) = True"
| "isStringLiteral e = False"

fun isMemberExpression :: "expr \<Rightarrow> bool" where
  "isMemberExpression (MemberExpression obj pr c) = True"
| "isMemberExpression e = False"

fun isObjectPattern :: "expr \<Rightarrow> bool" where
  "isObjectPattern (ObjectPattern ps) = True"
| "isObjectPattern e = False"

fun isFunction :: "expr \<Rightarrow> bool" where
  "isFunction (FunctionExpression n ps b) = True"
| "isFunction (ArrowFunctionExpression ps b) = True"
| "isFunction e = False"

text \<open>
  \<^verbatim>\<open>t.matchesPattern(node, 'a.b.c')\<close>: the node is a member expression whose chain,
  read from the innermost object outwards, consists of identifiers or string literals
  that spell the parts of the pattern. Babel does not look at \<^verbatim>\<open>computed\<close> here.
\<close>

fun member_chain :: "expr \<Rightarrow> expr list" where
  "member_chain (MemberExpression obj pr c) = member_chain obj @ [pr]"
| "member_chain e = [e]"

fun part_value :: "expr \<Rightarrow> string option" where
  "part_value (Identifier n) = Some n"
| "part_value (StringLiteral s) = Some s"
| "part_value e = None"

definition matchesPattern :: "expr \<Rightarrow> string list \<Rightarrow> bool" where
  "matchesPattern e parts =
     (isMemberExpression e \<and> map part_value (member_chain e) = map Some parts)"


section \<open>Babel: scopes\<close>

text \<open>
  The binding identifiers of a pattern (\<^verbatim>\<open>getBindingIdentifiers\<close>), and the names a
  scope binds after a crawl: a \<^verbatim>\<open>var\<close> belongs to the enclosing function or program,
  whatever blocks lie between; \<^verbatim>\<open>let\<close>, \<^verbatim>\<open>const\<close> and function declarations
  belong to the enclosing block; parameters and the name of a function expression
  belong to the function; import specifiers to the program.
\<close>

fun pattern_ids :: "expr \<Rightarrow> string list"
and property_ids :: "property \<Rightarrow> string list" where
  "pattern_ids (Identifier n) = [n]"
| "pattern_ids (ObjectPattern ps) = concat (map property_ids ps)"
| "pattern_ids e = []"
| "property_ids (ObjectProperty k v c) = pattern_ids v"
| "property_ids (RestElement a) = pattern_ids a"

fun declarator_ids :: "declarator \<Rightarrow> string list" where
  "declarator_ids (VariableDeclarator i init) = pattern_ids i"

fun var_names :: "stmt \<Rightarrow> string list" where
  "var_names (VariableDeclaration kind ds) =
     (if kind = ''var'' then concat (map declarator_ids ds) else [])"
| "var_names (IfStatement t c a) =
     var_names c @ (case a of None \<Rightarrow> [] | Some s \<Rightarrow> var_names s)"
| "var_names (BlockStatement ss) = concat (map var_names ss)"
| "var_names (ExportNamedDeclaration d sp src) =
     (case d of None \<Rightarrow> [] | Some s \<Rightarrow> var_names s)"
| "var_names s = []"

fun specifier_local :: "import_specifier \<Rightarrow> string" where
  "specifier_local (ImportDefaultSpecifier l) = l"
| "specifier_local (ImportNamespaceSpecifier l) = l"
| "specifier_local (ImportSpecifier l i) = l"

fun lexical_names :: "stmt \<Rightarrow> string list" where
  "lexical_names (VariableDeclaration kind ds) =
     (if kind = ''var'' then [] else concat (map declarator_ids ds))"
| "lexical_names (FunctionDeclaration n ps b) = [n]"
| "lexical_names (ImportDeclaration sp src) = map specifier_local sp"
| "lexical_names (ExportNamedDeclaration d sp src) =
     (case d of None \<Rightarrow> [] | Some s \<Rightarrow> lexical_names s)"
| "lexical_names s = []"

definition program_bindings :: "stmt list \<Rightarrow> string list" where
  "program_bindings ss = concat (map var_names ss) @ concat (map lexical_names ss)"

definition function_bindings :: "string option \<Rightarrow> expr list \<Rightarrow> stmt list \<Rightarrow> string list" where
  "function_bindings n ps b =
     (case n of None \<Rightarrow> [] | Some f \<Rightarrow> [f]) @ concat (map pattern_ids ps) @
     concat (map var_names b) @ concat (map lexical_names b)"

definition block_bindings :: "stmt list \<Rightarrow> string list" where
  "block_bindings ss = concat (map lexical_names ss)"

text \<open>
  \<^verbatim>\<open>scope.hasBinding(name)\<close> on a chain of scopes, innermost first, the program scope
  last. Babel also answers true for its list of built-in globals, unless the second
  argument \<^verbatim>\<open>noGlobals\<close> is set; \<^verbatim>\<open>module\<close>, \<^verbatim>\<open>exports\<close>, \<^verbatim>\<open>require\<close> and
  \<^verbatim>\<open>global\<close> are not on that list, and for \<^verbatim>\<open>eval\<close>, which is, the source sets
  \<^verbatim>\<open>noGlobals\<close>.
\<close>

definition hasBinding :: "string list list \<Rightarrow> string \<Rightarrow> bool" where
  "hasBinding chain name = (\<exists>s \<in> set chain. name \<in> set s)"

section \<open>Babel: paths\<close>

text \<open>
  What a handler reads from its \<^verbatim>\<open>path\<close>, besides the node: the parent and the key
  under which the node hangs there, the same for the parent, the scope chain, and the
  answers to the ancestor searches the handlers make:
  \<^item> \<^verbatim>\<open>functionParent\<close>: \<^verbatim>\<open>path.getFunctionParent()\<close> is not null;
  \<^item> \<^verbatim>\<open>nonArrowFunction\<close>: a scope between \<^verbatim>\<open>path.scope\<close> and the program
    belongs to a function that is not an arrow function;
  \<^item> \<^verbatim>\<open>statementTop\<close>: \<^verbatim>\<open>path.getStatementParent().parentPath.isProgram()\<close>;
  \<^item> \<^verbatim>\<open>condOrFun\<close>: \<^verbatim>\<open>path.findParent\<close> finds a conditional expression, a logical
    expression or a function;
  \<^item> \<^verbatim>\<open>data_shouldWrap\<close>: \<^verbatim>\<open>path.scope.getData('shouldWrap')\<close>, an absent key being
    \<^verbatim>\<open>False\<close>.
\<close>

record path =
  parent :: node
  key :: string
  grandparent :: node
  parentKey :: string
  scope :: "string list list"
  functionParent :: bool
  nonArrowFunction :: bool
  statementTop :: bool
  condOrFun :: bool
  data_shouldWrap :: bool

definition child :: "path \<Rightarrow> node \<Rightarrow> string \<Rightarrow> path" where
  "child p n k = p\<lparr>grandparent := parent p, parentKey := key p, parent := n, key := k\<rparr>"

text \<open>The path of a statement of the program body.\<close>

definition program_child :: "string list \<Rightarrow> bool \<Rightarrow> path" where
  "program_child bindings sw =
     \<lparr>parent = Program, key = ''body'', grandparent = File, parentKey = ''program'',
      scope = [bindings], functionParent = False, nonArrowFunction = False,
      statementTop = True, condOrFun = False, data_shouldWrap = sw\<rparr>"

text \<open>
  The paths of the parameters and of the body statements of a function \<^verbatim>\<open>f\<close> found at
  path \<^verbatim>\<open>p\<close>: the function opens a scope; the statements hang in the block that is the
  function's body.
\<close>

definition function_scope :: "path \<Rightarrow> string list \<Rightarrow> bool \<Rightarrow> path" where
  "function_scope p bs arrow =
     p\<lparr>scope := bs # scope p, functionParent := True,
       nonArrowFunction := (nonArrowFunction p \<or> \<not> arrow), condOrFun := True\<rparr>"

definition function_params :: "path \<Rightarrow> node \<Rightarrow> string list \<Rightarrow> bool \<Rightarrow> path" where
  "function_params p f bs arrow = child (function_scope p bs arrow) f ''params''"

definition function_body :: "path \<Rightarrow> node \<Rightarrow> stmt list \<Rightarrow> string list \<Rightarrow> bool \<Rightarrow> path" where
  "function_body p f b bs arrow =
     (child (child (function_scope p bs arrow) f ''body'') (Stmt (BlockStatement b)) ''body'')
       \<lparr>statementTop := False\<rparr>"

definition block_body :: "path \<Rightarrow> stmt list \<Rightarrow> path" where
  "block_body p b =
     (child p (Stmt (BlockStatement b)) ''body'')
       \<lparr>scope := block_bindings b # scope p, statementTop := False\<rparr>"

definition branch :: "path \<Rightarrow> node \<Rightarrow> string \<Rightarrow> path" where
  "branch p n k = (child p n k)\<lparr>condOrFun := True\<rparr>"

text \<open>
  \<^verbatim>\<open>t.isReferenced(node, parent, grandparent)\<close> for an identifier at a path, on the
  node kinds of the fragment: the property of a member expression is a reference only
  when computed, so is the key of an object property; the value of a property is one
  unless the property belongs to a pattern; the left-hand side of an assignment, a
  declared name, a parameter and a rest element are not; the local name of an export
  specifier is one unless the declaration re-exports from a source.
\<close>

definition isReferenced :: "path \<Rightarrow> bool" where
  "isReferenced p =
     (case parent p of
        Expr (MemberExpression obj pr c) \<Rightarrow>
          (if key p = ''property'' then c else key p = ''object'')
      | Declarator d \<Rightarrow> key p = ''init''
      | Expr (ArrowFunctionExpression ps b) \<Rightarrow> False
      | Expr (FunctionExpression n ps b) \<Rightarrow> False
      | Stmt (FunctionDeclaration n ps b) \<Rightarrow> False
      | ExportSpec sp src \<Rightarrow> \<not> src \<and> key p = ''local''
      | Prop (ObjectProperty k v c) \<Rightarrow>
          (if key p = ''key'' then c
           else (case grandparent p of Expr (ObjectPattern ps) \<Rightarrow> False | _ \<Rightarrow> True))
      | Prop (RestElement a) \<Rightarrow> False
      | Expr (AssignmentExpression l r) \<Rightarrow> key p = ''right''
      | Expr (ObjectPattern ps) \<Rightarrow> False
      | _ \<Rightarrow> True)"


section \<open>The pre-scan of \<^verbatim>\<open>Program.enter\<close>\<close>

text \<open>
  The state of the walk \<^verbatim>\<open>path.traverse({...})\<close> of lines 114 to 240: the asset, the
  local variable \<^verbatim>\<open>shouldWrap\<close>, and whether \<^verbatim>\<open>path.stop()\<close> has been called.
\<close>

record prescan_state =
  ps_asset :: asset
  shouldWrap :: bool
  stopped :: bool

definition set_isCommonJS :: "prescan_state \<Rightarrow> prescan_state" where
  "set_isCommonJS st = st\<lparr>ps_asset := (ps_asset st)\<lparr>meta_isCommonJS := True\<rparr>\<rparr>"

definition set_isES6Module :: "prescan_state \<Rightarrow> prescan_state" where
  "set_isES6Module st = st\<lparr>ps_asset := (ps_asset st)\<lparr>meta_isES6Module := True\<rparr>\<rparr>"

text \<open>Lines 183 to 197 and 222 to 236: give up on resolving the exports statically.\<close>

definition bailOut :: "prescan_state \<Rightarrow> prescan_state" where
  "bailOut st =
     st\<lparr>ps_asset :=
        addDependency (''./'' @ basename (filePath (ps_asset st)))
          [(''*'', \<lparr>local_name = ''@exports'', isWeak = False\<rparr>)]
          ((ps_asset st)\<lparr>meta_resolveExportsBailedOut := True\<rparr>)\<rparr>"

text \<open>
  The test of lines 175 to 181 and 214 to 220: the node is the left-hand side of its
  parent assignment, or the object of a member expression with a static property, or
  the scope is marked \<^verbatim>\<open>shouldWrap\<close>.
\<close>

definition safe_context :: "path \<Rightarrow> bool" where
  "safe_context p =
     ((case parent p of
         Expr (AssignmentExpression l r) \<Rightarrow> key p = ''left''
       | Expr (MemberExpression obj pr c) \<Rightarrow> (isIdentifier pr \<and> \<not> c) \<or> isStringLiteral pr
       | _ \<Rightarrow> False)
      \<or> data_shouldWrap p)"

fun parent_isMemberExpression :: "node \<Rightarrow> bool" where
  "parent_isMemberExpression (Expr (MemberExpression obj pr c)) = True"
| "parent_isMemberExpression n = False"

fun parent_computed :: "node \<Rightarrow> bool" where
  "parent_computed (Expr (MemberExpression obj pr c)) = c"
| "parent_computed (Prop (ObjectProperty k v c)) = c"
| "parent_computed n = False"

fun parent_isTypeof :: "node \<Rightarrow> bool" where
  "parent_isTypeof (Expr (UnaryExpression op a)) = (op = ''typeof'')"
| "parent_isTypeof n = False"

text \<open>Lines 121 to 134.\<close>

definition prescan_CallExpression :: "path \<Rightarrow> expr \<Rightarrow> prescan_state \<Rightarrow> prescan_state" where
  "prescan_CallExpression p callee st =
     (if isIdentifierNamed callee ''eval'' \<and> \<not> hasBinding (scope p) ''eval''
      then (set_isCommonJS st)\<lparr>shouldWrap := True, stopped := True\<rparr>
      else st)"

text \<open>Lines 136 to 151.\<close>

definition prescan_ReturnStatement ::
  "path \<Rightarrow> stmt \<Rightarrow> prescan_state \<Rightarrow> prescan_state \<times> stmt" where
  "prescan_ReturnStatement p s st =
     (if \<not> functionParent p
      then ((set_isCommonJS (st\<lparr>shouldWrap := True\<rparr>))\<lparr>stopped := True\<rparr>,
            ReturnStatement
              (Some (MemberExpression (Identifier ''module'') (Identifier ''exports'') False)))
      else (st, s))"

text \<open>Lines 153 to 200.\<close>

definition prescan_ReferencedIdentifier ::
  "path \<Rightarrow> string \<Rightarrow> prescan_state \<Rightarrow> prescan_state" where
  "prescan_ReferencedIdentifier p name st =
     (let st1 =
        (if name = ''module'' \<and>
            (\<not> parent_isMemberExpression (parent p) \<or> parent_computed (parent p)) \<and>
            \<not> parent_isTypeof (parent p) \<and>
            \<not> hasBinding (scope p) ''module'' \<and>
            \<not> data_shouldWrap p
         then (set_isCommonJS st)\<lparr>shouldWrap := True, stopped := True\<rparr>
         else st)
      in if name = ''exports'' \<and> \<not> hasBinding (scope p) ''exports''
         then (if \<not> safe_context p then bailOut (set_isCommonJS st1) else set_isCommonJS st1)
         else st1)"

text \<open>Lines 202 to 239.\<close>

definition prescan_MemberExpression :: "path \<Rightarrow> expr \<Rightarrow> prescan_state \<Rightarrow> prescan_state" where
  "prescan_MemberExpression p e st =
     (if matchesPattern e [''module'', ''exports''] \<and> \<not> hasBinding (scope p) ''module''
      then (if \<not> safe_context p then bailOut (set_isCommonJS st) else set_isCommonJS st)
      else st)"

text \<open>
  Which handler of the pre-scan visitor runs on entering a node. \<^verbatim>\<open>ExportDeclaration\<close>
  is Babel's alias for the three kinds of export declaration; \<^verbatim>\<open>ReferencedIdentifier\<close>
  is an identifier for which \<^verbatim>\<open>isReferenced\<close> holds.
\<close>

fun prescan_enter_expr :: "path \<Rightarrow> expr \<Rightarrow> prescan_state \<Rightarrow> prescan_state" where
  "prescan_enter_expr p (CallExpression callee args) st = prescan_CallExpression p callee st"
| "prescan_enter_expr p (Identifier name) st =
     (if isReferenced p then prescan_ReferencedIdentifier p name st else st)"
| "prescan_enter_expr p (MemberExpression obj pr c) st =
     prescan_MemberExpression p (MemberExpression obj pr c) st"
| "prescan_enter_expr p e st = st"

fun prescan_enter_stmt :: "path \<Rightarrow> stmt \<Rightarrow> prescan_state \<Rightarrow> prescan_state \<times> stmt" where
  "prescan_enter_stmt p (ImportDeclaration sp src) st =
     (set_isES6Module st, ImportDeclaration sp src)"
| "prescan_enter_stmt p (ExportNamedDeclaration d sp src) st =
     (set_isES6Module st, ExportNamedDeclaration d sp src)"
| "prescan_enter_stmt p (ExportDefaultDeclaration e) st =
     (set_isES6Module st, ExportDefaultDeclaration e)"
| "prescan_enter_stmt p (ExportAllDeclaration src) st =
     (set_isES6Module st, ExportAllDeclaration src)"
| "prescan_enter_stmt p (ReturnStatement a) st = prescan_ReturnStatement p (ReturnStatement a) st"
| "prescan_enter_stmt p s st = (st, s)"

text \<open>
  The local names of the export specifiers of a declaration are identifier nodes, which
  the walk visits under their specifier.
\<close>

fun specifier_paths :: "path \<Rightarrow> bool \<Rightarrow> export_specifier list \<Rightarrow> (path \<times> expr) list" where
  "specifier_paths p src [] = []"
| "specifier_paths p src (ExportSpecifier l e # sps) =
     (child p (ExportSpec (ExportSpecifier l e) src) ''local'', Identifier l) #
     specifier_paths p src sps"
| "specifier_paths p src (sp # sps) = specifier_paths p src sps"

fun prescan_specifiers :: "(path \<times> expr) list \<Rightarrow> prescan_state \<Rightarrow> prescan_state" where
  "prescan_specifiers [] st = st"
| "prescan_specifiers ((p, e) # xs) st =
     (if stopped st then st else prescan_specifiers xs (prescan_enter_expr p e st))"

text \<open>
  Babel's traversal with the pre-scan visitor: a node is entered (its handler runs),
  then its children are walked, key by key in the order of Babel's \<^verbatim>\<open>VISITOR_KEYS\<close>.
  Once \<^verbatim>\<open>path.stop()\<close> has been called nothing more is visited. The pre-scan replaces
  a node only in the handler that stops the walk, so the children see their parents as
  they were.
\<close>

function (sequential) prescan_expr :: "path \<Rightarrow> prescan_state \<Rightarrow> expr \<Rightarrow> prescan_state \<times> expr"
and prescan_sub :: "path \<Rightarrow> prescan_state \<Rightarrow> expr \<Rightarrow> prescan_state \<times> expr"
and prescan_exprs :: "path \<Rightarrow> prescan_state \<Rightarrow> expr list \<Rightarrow> prescan_state \<times> expr list"
and prescan_property :: "path \<Rightarrow> prescan_state \<Rightarrow> property \<Rightarrow> prescan_state \<times> property"
and prescan_properties ::
  "path \<Rightarrow> prescan_state \<Rightarrow> property list \<Rightarrow> prescan_state \<times> property list"
and prescan_stmt :: "path \<Rightarrow> prescan_state \<Rightarrow> stmt \<Rightarrow> prescan_state \<times> stmt"
and prescan_substmt :: "path \<Rightarrow> prescan_state \<Rightarrow> stmt \<Rightarrow> prescan_state \<times> stmt"
and prescan_stmts :: "path \<Rightarrow> prescan_state \<Rightarrow> stmt list \<Rightarrow> prescan_state \<times> stmt list"
and prescan_declarator ::
  "path \<Rightarrow> prescan_state \<Rightarrow> declarator \<Rightarrow> prescan_state \<times> declarator"
and prescan_declarators ::
  "path \<Rightarrow> prescan_state \<Rightarrow> declarator list \<Rightarrow> prescan_state \<times> declarator list"
where
  "prescan_expr p st e =
     (if stopped st then (st, e)
      else (let st1 = prescan_enter_expr p e st
            in if stopped st1 then (st1, e) else prescan_sub p st1 e))"
| "prescan_sub p st (Identifier n) = (st, Identifier n)"
| "prescan_sub p st (StringLiteral v) = (st, StringLiteral v)"
| "prescan_sub p st (NumericLiteral v) = (st, NumericLiteral v)"
| "prescan_sub p st (BooleanLiteral v) = (st, BooleanLiteral v)"
| "prescan_sub p st ThisExpression = (st, ThisExpression)"
| "prescan_sub p st (MemberExpression obj pr c) =
     (case prescan_expr (child p (Expr (MemberExpression obj pr c)) ''object'') st obj of
        (st1, obj') \<Rightarrow>
     (case prescan_expr (child p (Expr (MemberExpression obj pr c)) ''property'') st1 pr of
        (st2, pr') \<Rightarrow> (st2, MemberExpression obj' pr' c)))"
| "prescan_sub p st (CallExpression f args) =
     (case prescan_expr (child p (Expr (CallExpression f args)) ''callee'') st f of
        (st1, f') \<Rightarrow>
     (case prescan_exprs (child p (Expr (CallExpression f args)) ''arguments'') st1 args of
        (st2, args') \<Rightarrow> (st2, CallExpression f' args')))"
| "prescan_sub p st (AssignmentExpression l r) =
     (case prescan_expr (child p (Expr (AssignmentExpression l r)) ''left'') st l of
        (st1, l') \<Rightarrow>
     (case prescan_expr (child p (Expr (AssignmentExpression l r)) ''right'') st1 r of
        (st2, r') \<Rightarrow> (st2, AssignmentExpression l' r')))"
| "prescan_sub p st (UnaryExpression op a) =
     (case prescan_expr (child p (Expr (UnaryExpression op a)) ''argument'') st a of
        (st1, a') \<Rightarrow> (st1, UnaryExpression op a'))"
| "prescan_sub p st (AwaitExpression a) =
     (case prescan_expr (child p (Expr (AwaitExpression a)) ''argument'') st a of
        (st1, a') \<Rightarrow> (st1, AwaitExpression a'))"
| "prescan_sub p st (ConditionalExpression t c a) =
     (case prescan_expr (branch p (Expr (ConditionalExpression t c a)) ''test'') st t of
        (st1, t') \<Rightarrow>
     (case prescan_expr (branch p (Expr (ConditionalExpression t c a)) ''consequent'') st1 c of
        (st2, c') \<Rightarrow>
     (case prescan_expr (branch p (Expr (ConditionalExpression t c a)) ''alternate'') st2 a of
        (st3, a') \<Rightarrow> (st3, ConditionalExpression t' c' a'))))"
| "prescan_sub p st (LogicalExpression op l r) =
     (case prescan_expr (branch p (Expr (LogicalExpression op l r)) ''left'') st l of
        (st1, l') \<Rightarrow>
     (case prescan_expr (branch p (Expr (LogicalExpression op l r)) ''right'') st1 r of
        (st2, r') \<Rightarrow> (st2, LogicalExpression op l' r')))"
| "prescan_sub p st (SequenceExpression es) =
     (case prescan_exprs (child p (Expr (SequenceExpression es)) ''expressions'') st es of
        (st1, es') \<Rightarrow> (st1, SequenceExpression es'))"
| "prescan_sub p st (FunctionExpression n ps b) =
     (case prescan_exprs
             (function_params p (Expr (FunctionExpression n ps b))
                (function_bindings n ps b) False) st ps of
        (st1, ps') \<Rightarrow>
     (case prescan_stmts
             (function_body p (Expr (FunctionExpression n ps b)) b
                (function_bindings n ps b) False) st1 b of
        (st2, b') \<Rightarrow> (st2, FunctionExpression n ps' b')))"
| "prescan_sub p st (ArrowFunctionExpression ps b) =
     (case prescan_exprs
             (function_params p (Expr (ArrowFunctionExpression ps b))
                (function_bindings None ps b) True) st ps of
        (st1, ps') \<Rightarrow>
     (case prescan_stmts
             (function_body p (Expr (ArrowFunctionExpression ps b)) b
                (function_bindings None ps b) True) st1 b of
        (st2, b') \<Rightarrow> (st2, ArrowFunctionExpression ps' b')))"
| "prescan_sub p st (ObjectExpression props) =
     (case prescan_properties (child p (Expr (ObjectExpression props)) ''properties'') st props of
        (st1, props') \<Rightarrow> (st1, ObjectExpression props'))"
| "prescan_sub p st (ObjectPattern props) =
     (case prescan_properties (child p (Expr (ObjectPattern props)) ''properties'') st props of
        (st1, props') \<Rightarrow> (st1, ObjectPattern props'))"
| "prescan_exprs p st [] = (st, [])"
| "prescan_exprs p st (e # es) =
     (case prescan_expr p st e of (st1, e') \<Rightarrow>
     (case prescan_exprs p st1 es of (st2, es') \<Rightarrow> (st2, e' # es')))"
| "prescan_property p st (ObjectProperty k v c) =
     (if stopped st then (st, ObjectProperty k v c)
      else
     (case prescan_expr (child p (Prop (ObjectProperty k v c)) ''key'') st k of
        (st1, k') \<Rightarrow>
     (case prescan_expr (child p (Prop (ObjectProperty k v c)) ''value'') st1 v of
        (st2, v') \<Rightarrow> (st2, ObjectProperty k' v' c))))"
| "prescan_property p st (RestElement a) =
     (if stopped st then (st, RestElement a)
      else
     (case prescan_expr (child p (Prop (RestElement a)) ''argument'') st a of
        (st1, a') \<Rightarrow> (st1, RestElement a')))"
| "prescan_properties p st [] = (st, [])"
| "prescan_properties p st (x # xs) =
     (case prescan_property p st x of (st1, x') \<Rightarrow>
     (case prescan_properties p st1 xs of (st2, xs') \<Rightarrow> (st2, x' # xs')))"
| "prescan_stmt p st s =
     (if stopped st then (st, s)
      else (case prescan_enter_stmt p s st of
              (st1, s1) \<Rightarrow> if stopped st1 then (st1, s1) else prescan_substmt p st1 s))"
| "prescan_substmt p st (ExpressionStatement e) =
     (case prescan_expr (child p (Stmt (ExpressionStatement e)) ''expression'') st e of
        (st1, e') \<Rightarrow> (st1, ExpressionStatement e'))"
| "prescan_substmt p st (VariableDeclaration kind ds) =
     (case prescan_declarators (child p (Stmt (VariableDeclaration kind ds)) ''declarations'')
             st ds of
        (st1, ds') \<Rightarrow> (st1, VariableDeclaration kind ds'))"
| "prescan_substmt p st (ReturnStatement None) = (st, ReturnStatement None)"
| "prescan_substmt p st (ReturnStatement (Some e)) =
     (case prescan_expr (child p (Stmt (ReturnStatement (Some e))) ''argument'') st e of
        (st1, e') \<Rightarrow> (st1, ReturnStatement (Some e')))"
| "prescan_substmt p st (FunctionDeclaration n ps b) =
     (case prescan_exprs
             (function_params p (Stmt (FunctionDeclaration n ps b))
                (function_bindings None ps b) False) st ps of
        (st1, ps') \<Rightarrow>
     (case prescan_stmts
             (function_body p (Stmt (FunctionDeclaration n ps b)) b
                (function_bindings None ps b) False) st1 b of
        (st2, b') \<Rightarrow> (st2, FunctionDeclaration n ps' b')))"
| "prescan_substmt p st (IfStatement t c None) =
     (case prescan_expr (child p (Stmt (IfStatement t c None)) ''test'') st t of
        (st1, t') \<Rightarrow>
     (case prescan_stmt (child p (Stmt (IfStatement t c None)) ''consequent'') st1 c of
        (st2, c') \<Rightarrow> (st2, IfStatement t' c' None)))"
| "prescan_substmt p st (IfStatement t c (Some a)) =
     (case prescan_expr (child p (Stmt (IfStatement t c (Some a))) ''test'') st t of
        (st1, t') \<Rightarrow>
     (case prescan_stmt (child p (Stmt (IfStatement t c (Some a))) ''consequent'') st1 c of
        (st2, c') \<Rightarrow>
     (case prescan_stmt (child p (Stmt (IfStatement t c (Some a))) ''alternate'') st2 a of
        (st3, a') \<Rightarrow> (st3, IfStatement t' c' (Some a')))))"
| "prescan_substmt p st (BlockStatement ss) =
     (case prescan_stmts (block_body p ss) st ss of
        (st1, ss') \<Rightarrow> (st1, BlockStatement ss'))"
| "prescan_substmt p st (ImportDeclaration sp src) = (st, ImportDeclaration sp src)"
| "prescan_substmt p st (ExportNamedDeclaration None sp src) =
     (prescan_specifiers
        (specifier_paths
           (child p (Stmt (ExportNamedDeclaration None sp src)) ''specifiers'') (src \<noteq> None) sp)
        st,
      ExportNamedDeclaration None sp src)"
| "prescan_substmt p st (ExportNamedDeclaration (Some d) sp src) =
     (case prescan_stmt
             (child p (Stmt (ExportNamedDeclaration (Some d) sp src)) ''declaration'') st d of
        (st1, d') \<Rightarrow>
          (prescan_specifiers
             (specifier_paths
                (child p (Stmt (ExportNamedDeclaration (Some d) sp src)) ''specifiers'')
                (src \<noteq> None) sp)
             st1,
           ExportNamedDeclaration (Some d') sp src))"
| "prescan_substmt p st (ExportDefaultDeclaration e) =
     (case prescan_expr (child p (Stmt (ExportDefaultDeclaration e)) ''declaration'') st e of
        (st1, e') \<Rightarrow> (st1, ExportDefaultDeclaration e'))"
| "prescan_substmt p st (ExportAllDeclaration src) = (st, ExportAllDeclaration src)"
| "prescan_stmts p st [] = (st, [])"
| "prescan_stmts p st (s # ss) =
     (case prescan_stmt p st s of (st1, s') \<Rightarrow>
     (case prescan_stmts p st1 ss of (st2, ss') \<Rightarrow> (st2, s' # ss')))"
| "prescan_declarator p st (VariableDeclarator i None) =
     (if stopped st then (st, VariableDeclarator i None)
      else
     (case prescan_expr (child p (Declarator (VariableDeclarator i None)) ''id'') st i of
        (st1, i') \<Rightarrow> (st1, VariableDeclarator i' None)))"
| "prescan_declarator p st (VariableDeclarator i (Some e)) =
     (if stopped st then (st, VariableDeclarator i (Some e))
      else
     (case prescan_expr (child p (Declarator (VariableDeclarator i (Some e))) ''id'') st i of
        (st1, i') \<Rightarrow>
     (case prescan_expr (child p (Declarator (VariableDeclarator i (Some e))) ''init'') st1 e of
        (st2, e') \<Rightarrow> (st2, VariableDeclarator i' (Some e')))))"
| "prescan_declarators p st [] = (st, [])"
| "prescan_declarators p st (d # ds) =
     (case prescan_declarator p st d of (st1, d') \<Rightarrow>
     (case prescan_declarators p st1 ds of (st2, ds') \<Rightarrow> (st2, d' # ds')))"

  by pat_completeness auto

termination
  by (relation "measure
        (case_sum
          (case_sum
            (case_sum (\<lambda>(p, st, e). 2 * size e + 1) (\<lambda>(p, st, e). 2 * size e))
            (case_sum (\<lambda>(p, st, es). 2 * size_list size es + 1)
              (case_sum (\<lambda>(p, st, x). 2 * size x + 1)
                        (\<lambda>(p, st, xs). 2 * size_list size xs + 1))))
          (case_sum
            (case_sum (\<lambda>(p, st, s). 2 * size s + 1) (\<lambda>(p, st, s). 2 * size s))
            (case_sum (\<lambda>(p, st, ss). 2 * size_list size ss + 1)
              (case_sum (\<lambda>(p, st, d). 2 * size d + 1)
                        (\<lambda>(p, st, ds). 2 * size_list size ds + 1)))))")
     auto

declare prescan_expr.simps [simp del] prescan_stmt.simps [simp del]

text \<open>
  The pre-scan of a program body, started as \<^verbatim>\<open>Program.enter\<close> starts it: the scope
  has just been crawled (line 111), which also empties the scope's data, so
  \<^verbatim>\<open>getData('shouldWrap')\<close> is absent on every path of the walk.
\<close>

definition prescan :: "asset \<Rightarrow> stmt list \<Rightarrow> prescan_state \<times> stmt list" where
  "prescan a ss =
     prescan_stmts (program_child (program_bindings ss) False)
       \<lparr>ps_asset = a, shouldWrap = False, stopped = False\<rparr> ss"

subsection \<open>The walk as a sequence of visits\<close>

text \<open>
  The paths of a tree in the order in which Babel's traversal enters them, each with
  its node.
\<close>

function (sequential) paths_expr :: "path \<Rightarrow> expr \<Rightarrow> (path \<times> node) list"
and paths_exprs :: "path \<Rightarrow> expr list \<Rightarrow> (path \<times> node) list"
and paths_property :: "path \<Rightarrow> property \<Rightarrow> (path \<times> node) list"
and paths_properties :: "path \<Rightarrow> property list \<Rightarrow> (path \<times> node) list"
and paths_stmt :: "path \<Rightarrow> stmt \<Rightarrow> (path \<times> node) list"
and paths_stmts :: "path \<Rightarrow> stmt list \<Rightarrow> (path \<times> node) list"
and paths_declarator :: "path \<Rightarrow> declarator \<Rightarrow> (path \<times> node) list"
and paths_declarators :: "path \<Rightarrow> declarator list \<Rightarrow> (path \<times> node) list"
where
  "paths_expr p (Identifier n) = [(p, Expr (Identifier n))]"
| "paths_expr p (StringLiteral v) = [(p, Expr (StringLiteral v))]"
| "paths_expr p (NumericLiteral v) = [(p, Expr (NumericLiteral v))]"
| "paths_expr p (BooleanLiteral v) = [(p, Expr (BooleanLiteral v))]"
| "paths_expr p ThisExpression = [(p, Expr ThisExpression)]"
| "paths_expr p (MemberExpression obj pr c) =
     (p, Expr (MemberExpression obj pr c)) #
     paths_expr (child p (Expr (MemberExpression obj pr c)) ''object'') obj @
     paths_expr (child p (Expr (MemberExpression obj pr c)) ''property'') pr"
| "paths_expr p (CallExpression f args) =
     (p, Expr (CallExpression f args)) #
     paths_expr (child p (Expr (CallExpression f args)) ''callee'') f @
     paths_exprs (child p (Expr (CallExpression f args)) ''arguments'') args"
| "paths_expr p (AssignmentExpression l r) =
     (p, Expr (AssignmentExpression l r)) #
     paths_expr (child p (Expr (AssignmentExpression l r)) ''left'') l @
     paths_expr (child p (Expr (AssignmentExpression l r)) ''right'') r"
| "paths_expr p (UnaryExpression op a) =
     (p, Expr (UnaryExpression op a)) #
     paths_expr (child p (Expr (UnaryExpression op a)) ''argument'') a"
| "paths_expr p (AwaitExpression a) =
     (p, Expr (AwaitExpression a)) #
     paths_expr (child p (Expr (AwaitExpression a)) ''argument'') a"
| "paths_expr p (ConditionalExpression t c a) =
     (p, Expr (ConditionalExpression t c a)) #
     paths_expr (branch p (Expr (ConditionalExpression t c a)) ''test'') t @
     paths_expr (branch p (Expr (ConditionalExpression t c a)) ''consequent'') c @
     paths_expr (branch p (Expr (ConditionalExpression t c a)) ''alternate'') a"
| "paths_expr p (LogicalExpression op l r) =
     (p, Expr (LogicalExpression op l r)) #
     paths_expr (branch p (Expr (LogicalExpression op l r)) ''left'') l @
     paths_expr (branch p (Expr (LogicalExpression op l r)) ''right'') r"
| "paths_expr p (SequenceExpression es) =
     (p, Expr (SequenceExpression es)) #
     paths_exprs (child p (Expr (SequenceExpression es)) ''expressions'') es"
| "paths_expr p (FunctionExpression n ps b) =
     (p, Expr (FunctionExpression n ps b)) #
     paths_exprs (function_params p (Expr (FunctionExpression n ps b))
                    (function_bindings n ps b) False) ps @
     paths_stmts (function_body p (Expr (FunctionExpression n ps b)) b
                    (function_bindings n ps b) False) b"
| "paths_expr p (ArrowFunctionExpression ps b) =
     (p, Expr (ArrowFunctionExpression ps b)) #
     paths_exprs (function_params p (Expr (ArrowFunctionExpression ps b))
                    (function_bindings None ps b) True) ps @
     paths_stmts (function_body p (Expr (ArrowFunctionExpression ps b)) b
                    (function_bindings None ps b) True) b"
| "paths_expr p (ObjectExpression props) =
     (p, Expr (ObjectExpression props)) #
     paths_properties (child p (Expr (ObjectExpression props)) ''properties'') props"
| "paths_expr p (ObjectPattern props) =
     (p, Expr (ObjectPattern props)) #
     paths_properties (child p (Expr (ObjectPattern props)) ''properties'') props"
| "paths_exprs p [] = []"
| "paths_exprs p (e # es) = paths_expr p e @ paths_exprs p es"
| "paths_property p (ObjectProperty k v c) =
     (p, Prop (ObjectProperty k v c)) #
     paths_expr (child p (Prop (ObjectProperty k v c)) ''key'') k @
     paths_expr (child p (Prop (ObjectProperty k v c)) ''value'') v"
| "paths_property p (RestElement a) =
     (p, Prop (RestElement a)) # paths_expr (child p (Prop (RestElement a)) ''argument'') a"
| "paths_properties p [] = []"
| "paths_properties p (x # xs) = paths_property p x @ paths_properties p xs"
| "paths_stmt p (ExpressionStatement e) =
     (p, Stmt (ExpressionStatement e)) #
     paths_expr (child p (Stmt (ExpressionStatement e)) ''expression'') e"
| "paths_stmt p (VariableDeclaration kind ds) =
     (p, Stmt (VariableDeclaration kind ds)) #
     paths_declarators (child p (Stmt (VariableDeclaration kind ds)) ''declarations'') ds"
| "paths_stmt p (ReturnStatement None) = [(p, Stmt (ReturnStatement None))]"
| "paths_stmt p (ReturnStatement (Some e)) =
     (p, Stmt (ReturnStatement (Some e))) #
     paths_expr (child p (Stmt (ReturnStatement (Some e))) ''argument'') e"
| "paths_stmt p (FunctionDeclaration n ps b) =
     (p, Stmt (FunctionDeclaration n ps b)) #
     paths_exprs (function_params p (Stmt (FunctionDeclaration n ps b))
                    (function_bindings None ps b) False) ps @
     paths_stmts (function_body p (Stmt (FunctionDeclaration n ps b)) b
                    (function_bindings None ps b) False) b"
| "paths_stmt p (IfStatement t c None) =
     (p, Stmt (IfStatement t c None)) #
     paths_expr (child p (Stmt (IfStatement t c None)) ''test'') t @
     paths_stmt (child p (Stmt (IfStatement t c None)) ''consequent'') c"
| "paths_stmt p (IfStatement t c (Some a)) =
     (p, Stmt (IfStatement t c (Some a))) #
     paths_expr (child p (Stmt (IfStatement t c (Some a))) ''test'') t @
     paths_stmt (child p (Stmt (IfStatement t c (Some a))) ''consequent'') c @
     paths_stmt (child p (Stmt (IfStatement t c (Some a))) ''alternate'') a"
| "paths_stmt p (BlockStatement ss) =
     (p, Stmt (BlockStatement ss)) # paths_stmts (block_body p ss) ss"
| "paths_stmt p (ImportDeclaration sp src) = [(p, Stmt (ImportDeclaration sp src))]"
| "paths_stmt p (ExportNamedDeclaration None sp src) =
     (p, Stmt (ExportNamedDeclaration None sp src)) #
     map (\<lambda>(q, e). (q, Expr e))
       (specifier_paths
          (child p (Stmt (ExportNamedDeclaration None sp src)) ''specifiers'')
          (src \<noteq> None) sp)"
| "paths_stmt p (ExportNamedDeclaration (Some d) sp src) =
     (p, Stmt (ExportNamedDeclaration (Some d) sp src)) #
     paths_stmt (child p (Stmt (ExportNamedDeclaration (Some d) sp src)) ''declaration'') d @
     map (\<lambda>(q, e). (q, Expr e))
       (specifier_paths
          (child p (Stmt (ExportNamedDeclaration (Some d) sp src)) ''specifiers'')
          (src \<noteq> None) sp)"
| "paths_stmt p (ExportDefaultDeclaration e) =
     (p, Stmt (ExportDefaultDeclaration e)) #
     paths_expr (child p (Stmt (ExportDefaultDeclaration e)) ''declaration'') e"
| "paths_stmt p (ExportAllDeclaration src) = [(p, Stmt (ExportAllDeclaration src))]"
| "paths_stmts p [] = []"
| "paths_stmts p (s # ss) = paths_stmt p s @ paths_stmts p ss"
| "paths_declarator p (VariableDeclarator i None) =
     (p, Declarator (VariableDeclarator i None)) #
     paths_expr (child p (Declarator (VariableDeclarator i None)) ''id'') i"
| "paths_declarator p (VariableDeclarator i (Some e)) =
     (p, Declarator (VariableDeclarator i (Some e))) #
     paths_expr (child p (Declarator (VariableDeclarator i (Some e))) ''id'') i @
     paths_expr (child p (Declarator (VariableDeclarator i (Some e))) ''init'') e"
| "paths_declarators p [] = []"
| "paths_declarators p (d # ds) = paths_declarator p d @ paths_declarators p ds"
  by pat_completeness auto

termination
  by (relation "measure
        (case_sum
          (case_sum
            (case_sum (\<lambda>(p, e). size e) (\<lambda>(p, es). size_list size es))
            (case_sum (\<lambda>(p, x). size x) (\<lambda>(p, xs). size_list size xs)))
          (case_sum
            (case_sum (\<lambda>(p, s). size s) (\<lambda>(p, ss). size_list size ss))
            (case_sum (\<lambda>(p, d). size d) (\<lambda>(p, ds). size_list size ds))))")
     auto

definition paths_program :: "stmt list \<Rightarrow> (path \<times> node) list" where
  "paths_program ss = paths_stmts (program_child (program_bindings ss) False) ss"

text \<open>What entering a node does to the state of the pre-scan.\<close>

fun visit :: "path \<times> node \<Rightarrow> prescan_state \<Rightarrow> prescan_state" where
  "visit (p, Expr e) st = prescan_enter_expr p e st"
| "visit (p, Stmt s) st = fst (prescan_enter_stmt p s st)"
| "visit (p, n) st = st"

fun visit_all :: "(path \<times> node) list \<Rightarrow> prescan_state \<Rightarrow> prescan_state" where
  "visit_all [] st = st"
| "visit_all (x # xs) st = (if stopped st then st else visit_all xs (visit x st))"

subsection \<open>The three reasons to wrap\<close>

text \<open>
  A free reference to \<^verbatim>\<open>module\<close>: a referenced identifier of that name with no
  binding in scope.
\<close>

fun free_module_reference :: "path \<times> node \<Rightarrow> bool" where
  "free_module_reference (p, Expr (Identifier n)) =
     (n = ''module'' \<and> isReferenced p \<and> \<not> hasBinding (scope p) ''module'')"
| "free_module_reference (p, n) = False"

text \<open>The parent is \<^verbatim>\<open>typeof module\<close>.\<close>

definition under_typeof :: "path \<Rightarrow> bool" where
  "under_typeof p = parent_isTypeof (parent p)"

text \<open>
  The parent is a static member access \<^verbatim>\<open>module.<id>\<close> or \<^verbatim>\<open>module["id"]\<close>, as
  the specification has it.
\<close>

fun static_access :: "path \<Rightarrow> bool" where
  "static_access p =
     (case parent p of
        Expr (MemberExpression obj pr c) \<Rightarrow>
          key p = ''object'' \<and> ((isIdentifier pr \<and> \<not> c) \<or> isStringLiteral pr)
      | _ \<Rightarrow> False)"

text \<open>The parent is a member access that is not computed: \<^verbatim>\<open>module.<id>\<close>.\<close>

fun plain_access :: "path \<Rightarrow> bool" where
  "plain_access p =
     (case parent p of
        Expr (MemberExpression obj pr c) \<Rightarrow> \<not> c
      | _ \<Rightarrow> False)"

text \<open>A return statement with no enclosing function.\<close>

fun toplevel_return :: "path \<times> node \<Rightarrow> bool" where
  "toplevel_return (p, Stmt (ReturnStatement a)) = (\<not> functionParent p)"
| "toplevel_return (p, n) = False"

text \<open>A call to \<^verbatim>\<open>eval\<close> with no local binding of \<^verbatim>\<open>eval\<close>.\<close>

fun free_eval_call :: "path \<times> node \<Rightarrow> bool" where
  "free_eval_call (p, Expr (CallExpression f args)) =
     (isIdentifierNamed f ''eval'' \<and> \<not> hasBinding (scope p) ''eval'')"
| "free_eval_call (p, n) = False"

text \<open>The condition as the specification words it, and as the source has it.\<close>

definition spec_trigger :: "path \<times> node \<Rightarrow> bool" where
  "spec_trigger x =
     ((free_module_reference x \<and> \<not> under_typeof (fst x) \<and> \<not> static_access (fst x))
      \<or> toplevel_return x \<or> free_eval_call x)"

definition wrap_trigger :: "path \<times> node \<Rightarrow> bool" where
  "wrap_trigger x =
     ((free_module_reference x \<and> \<not> under_typeof (fst x) \<and> \<not> plain_access (fst x))
      \<or> toplevel_return x \<or> free_eval_call x)"


section \<open>\<^verbatim>\<open>Program.enter\<close>\<close>

text \<open>
  What the handlers of the main visitor change through the program scope and the asset:
  the asset, the data \<^verbatim>\<open>cjsExportsReassigned\<close> of the program scope, the names the
  program scope binds, the names registered with \<^verbatim>\<open>addGlobal\<close>, and the declarators
  that \<^verbatim>\<open>scope.push\<close> has put into the \<^verbatim>\<open>var\<close> declaration it keeps at the top of
  the program. The data \<^verbatim>\<open>shouldWrap\<close> of the program scope is written once, at line
  248, and only read afterwards: the paths of the main walk carry it
  (\<^verbatim>\<open>data_shouldWrap\<close>).
\<close>

record hoist_state =
  hs_asset :: asset
  cjsExportsReassigned :: bool
  bindings :: "string list"
  globals :: "string list"
  pushed :: "declarator list"

text \<open>Lines 106 to 108.\<close>

definition enter_asset :: "asset \<Rightarrow> asset" where
  "enter_asset a =
     a\<lparr>asset_symbols := ensure (asset_symbols a),
       meta_id := Some (asset_id a),
       meta_exportsIdentifier := Some (getName a ''exports'' [])\<rparr>"

text \<open>Lines 242 to 246.\<close>

definition assume_commonjs :: "asset \<Rightarrow> asset" where
  "assume_commonjs a =
     (if \<not> meta_isCommonJS a \<and> \<not> meta_isES6Module a
      then a\<lparr>meta_isCommonJS := True,
             asset_symbols := symbols_set ''*'' (getName a ''exports'' []) False (asset_symbols a)\<rparr>
      else a)"

text \<open>
  Lines 105 to 250. The scope is crawled before the pre-scan; the pre-scan replaces a
  top-level \<^verbatim>\<open>return\<close> at most, which binds nothing, so the bindings are those of the
  body as it came. The result: the state, the value stored as \<^verbatim>\<open>shouldWrap\<close> on the
  program scope, and the body.
\<close>

definition Program_enter :: "asset \<Rightarrow> stmt list \<Rightarrow> hoist_state \<times> bool \<times> stmt list" where
  "Program_enter a ss =
     (case prescan (enter_asset a) ss of
        (ps, ss') \<Rightarrow>
          (\<lparr>hs_asset = assume_commonjs (ps_asset ps),
            cjsExportsReassigned = False,
            bindings = program_bindings ss,
            globals = [],
            pushed = []\<rparr>, shouldWrap ps, ss'))"

section \<open>The handlers of the main visitor\<close>

text \<open>
  During the main walk the program scope changes: declarations are registered and
  pushed. A handler therefore reads the bindings of the program scope from the state
  and those of the scopes inside it from its path. The data \<^verbatim>\<open>shouldWrap\<close> is stored
  on the program scope only, so \<^verbatim>\<open>path.scope.getData('shouldWrap')\<close> finds that value
  from every scope, as \<^verbatim>\<open>scope.getProgramParent().getData('shouldWrap')\<close> does.
\<close>

definition in_scope :: "path \<Rightarrow> hoist_state \<Rightarrow> string \<Rightarrow> bool" where
  "in_scope p st name = hasBinding (butlast (scope p) @ [bindings st]) name"

text \<open>\<^verbatim>\<open>path.scope === path.scope.getProgramParent()\<close>\<close>

definition at_program_scope :: "path \<Rightarrow> bool" where
  "at_program_scope p = (butlast (scope p) = [])"

definition update_asset :: "(asset \<Rightarrow> asset) \<Rightarrow> hoist_state \<Rightarrow> hoist_state" where
  "update_asset f st = st\<lparr>hs_asset := f (hs_asset st)\<rparr>"

definition asset_symbols_set :: "string \<Rightarrow> string \<Rightarrow> asset \<Rightarrow> asset" where
  "asset_symbols_set exported loc a =
     a\<lparr>asset_symbols := symbols_set exported loc False (asset_symbols a)\<rparr>"

text \<open>
  \<^verbatim>\<open>scope.push\<close> on the program scope: the declarator joins the \<^verbatim>\<open>var\<close> declaration
  that Babel keeps at the top of the program body, and its names are bound.
\<close>

definition scope_push :: "declarator \<Rightarrow> hoist_state \<Rightarrow> hoist_state" where
  "scope_push d st = st\<lparr>pushed := pushed st @ [d], bindings := bindings st @ declarator_ids d\<rparr>"

fun identifier_name :: "expr \<Rightarrow> string" where
  "identifier_name (Identifier n) = n"
| "identifier_name e = []"

text \<open>Lines 1030 to 1041.\<close>

definition getExportsIdentifier :: "path \<Rightarrow> hoist_state \<Rightarrow> hoist_state \<times> expr" where
  "getExportsIdentifier p st =
     (if data_shouldWrap p then (st, Identifier ''exports'')
      else (let n = getName (hs_asset st) ''exports'' []
            in (if \<not> in_scope p st n then st\<lparr>globals := globals st @ [n]\<rparr> else st,
                Identifier n)))"

text \<open>Lines 1043 to 1056.\<close>

definition getCJSExportsIdentifier :: "path \<Rightarrow> hoist_state \<Rightarrow> hoist_state \<times> expr" where
  "getCJSExportsIdentifier p st =
     (if data_shouldWrap p then (st, Identifier ''exports'')
      else if cjsExportsReassigned st
      then (let n = getName (hs_asset st) ''cjs_exports'' []
            in (if \<not> in_scope p st n
                then scope_push (VariableDeclarator (Identifier n) None) st else st,
                Identifier n))
      else getExportsIdentifier p st)"

text \<open>Lines 309 to 315: the \<^verbatim>\<open>'use strict'\<close> directives are removed.\<close>

definition VISITOR_DirectiveLiteral :: "string list \<Rightarrow> string list" where
  "VISITOR_DirectiveLiteral ds = filter (\<lambda>d. d \<noteq> ''use strict'') ds"

text \<open>
  Lines 317 to 347. A handler returns the new state and, when it calls
  \<^verbatim>\<open>path.replaceWith\<close>, the node that replaces its own.
\<close>

definition VISITOR_MemberExpression ::
  "path \<Rightarrow> expr \<Rightarrow> hoist_state \<Rightarrow> hoist_state \<times> expr option" where
  "VISITOR_MemberExpression p e st =
     (if in_scope p st ''module'' \<or> data_shouldWrap p then (st, None)
      else if matchesPattern e [''module'', ''exports'']
      then (case getExportsIdentifier p st of
              (st1, exportsId) \<Rightarrow>
                (let st2 = update_asset (asset_symbols_set ''*'' (identifier_name exportsId)) st1
                 in (if \<not> in_scope p st2 (identifier_name exportsId)
                     then scope_push (VariableDeclarator exportsId (Some (ObjectExpression []))) st2
                     else st2,
                     Some exportsId)))
      else if matchesPattern e [''module'', ''id'']
      then (st, Some (StringLiteral (asset_id (hs_asset st))))
      else if matchesPattern e [''module'', ''hot'']
      then (st, Some (Identifier ''null''))
      else if matchesPattern e [''module'', ''require''] \<and> \<not> env_isNode (hs_asset st)
      then (st, Some (Identifier ''null''))
      else if matchesPattern e [''module'', ''bundle'', ''root''] \<or>
              matchesPattern e [''module'', ''bundle'']
      then (st, Some (Identifier ''parcelRequire''))
      else (st, None))"

text \<open>
  Lines 349 to 362. The second test reads \<^verbatim>\<open>path.node.name\<close> again, after the first
  replacement if there was one.
\<close>

definition VISITOR_ReferencedIdentifier ::
  "path \<Rightarrow> string \<Rightarrow> hoist_state \<Rightarrow> hoist_state \<times> expr option" where
  "VISITOR_ReferencedIdentifier p name st =
     (case (if name = ''exports'' \<and> \<not> in_scope p st ''exports'' \<and> \<not> data_shouldWrap p
            then (case getCJSExportsIdentifier p st of
                    (st1, e) \<Rightarrow> (update_asset (\<lambda>a. a\<lparr>meta_isCommonJS := True\<rparr>) st1, Some e))
            else (st, None)) of
        (st1, r) \<Rightarrow>
          (if (case r of None \<Rightarrow> name | Some e \<Rightarrow> identifier_name e) = ''global'' \<and>
              \<not> in_scope p st1 ''global''
           then (st1, Some (Identifier ''$parcel$global''))
           else (st1, r)))"

text \<open>Lines 364 to 385.\<close>

definition VISITOR_ThisExpression :: "path \<Rightarrow> hoist_state \<Rightarrow> hoist_state \<times> expr option" where
  "VISITOR_ThisExpression p st =
     (if \<not> data_shouldWrap p
      then (if nonArrowFunction p then (st, None)
            else if meta_isES6Module (hs_asset st) then (st, Some (Identifier ''undefined''))
            else (case getExportsIdentifier p st of
                    (st1, e) \<Rightarrow> (update_asset (\<lambda>a. a\<lparr>meta_isCommonJS := True\<rparr>) st1, Some e)))
      else (st, None))"

text \<open>
  Lines 387 to 498. The handler leaves the assignment as it is, or replaces its left-hand
  side (\<^verbatim>\<open>exports = ...\<close>), or turns a static export \<^verbatim>\<open>exports.K = rhs\<close> into a reference
  to the export identifier: then it replaces the object of the left-hand side and the
  right-hand side, and calls \<^verbatim>\<open>path.insertBefore\<close> with the statement that holds the
  original right-hand side.
\<close>

datatype assignment_result =
    Unchanged
  | LeftReplaced expr
  | Exported expr expr stmt

fun static_property :: "expr \<Rightarrow> bool \<Rightarrow> bool" where
  "static_property pr c = ((isIdentifier pr \<and> \<not> c) \<or> isStringLiteral pr)"

fun property_name :: "expr \<Rightarrow> string" where
  "property_name (Identifier n) = n"
| "property_name (StringLiteral v) = v"
| "property_name e = []"

definition export_assignment ::
  "path \<Rightarrow> expr \<Rightarrow> bool \<Rightarrow> expr \<Rightarrow> hoist_state \<Rightarrow> hoist_state \<times> assignment_result" where
  "export_assignment p pr c right st =
     (let name = property_name pr;
          identifier = getExportIdentifier (hs_asset st) name
      in case getExportsIdentifier p st of
           (st1, exportsId) \<Rightarrow>
             (let assign = ExpressionStatement (AssignmentExpression identifier right);
                  (st2, inserted) =
                    (if \<not> identifier_name identifier \<in> set (bindings st1)
                     then (let st3 =
                                 (if name \<noteq> ''default'' \<and> name \<noteq> ''*''
                                  then update_asset
                                         (asset_symbols_set name (identifier_name identifier)) st1
                                  else st1)
                           in if at_program_scope p
                              then (st3\<lparr>bindings := bindings st3 @ [identifier_name identifier]\<rparr>,
                                    VariableDeclaration ''var''
                                      [VariableDeclarator identifier (Some right)])
                              else (scope_push (VariableDeclarator identifier None) st3, assign))
                     else (st1, assign))
              in (update_asset (\<lambda>a. a\<lparr>meta_isCommonJS := True\<rparr>) st2,
                  Exported (MemberExpression exportsId pr c) identifier inserted)))"

definition VISITOR_AssignmentExpression ::
  "path \<Rightarrow> expr \<Rightarrow> expr \<Rightarrow> hoist_state \<Rightarrow> hoist_state \<times> assignment_result" where
  "VISITOR_AssignmentExpression p left right st =
     (if data_shouldWrap p then (st, Unchanged)
      else if isIdentifierNamed left ''exports'' \<and> \<not> in_scope p st ''exports''
      then (case getCJSExportsIdentifier p (st\<lparr>cjsExportsReassigned := True\<rparr>) of
              (st1, e) \<Rightarrow>
                (update_asset (\<lambda>a. a\<lparr>meta_isCommonJS := True\<rparr>) st1, LeftReplaced e))
      else (case left of
              MemberExpression obj pr c \<Rightarrow>
                (if ((isIdentifierNamed obj ''exports'' \<and> \<not> in_scope p st ''exports'') \<or>
                     (matchesPattern obj [''module'', ''exports''] \<and>
                      \<not> in_scope p st ''module'')) \<and>
                    static_property pr c
                 then export_assignment p pr c right st
                 else (st, Unchanged))
            | _ \<Rightarrow> (st, Unchanged)))"

text \<open>
  Lines 89 to 92 and 500 to 511. The table \<^verbatim>\<open>TYPEOF\<close> is read at its own two keys,
  \<^verbatim>\<open>module\<close> and \<^verbatim>\<open>require\<close>; a name that a JavaScript object inherits from
  \<^verbatim>\<open>Object.prototype\<close>, such as \<^verbatim>\<open>__proto__\<close>, is not looked up here.
\<close>

definition TYPEOF :: "string \<Rightarrow> string option" where
  "TYPEOF name =
     (if name = ''module'' then Some ''object''
      else if name = ''require'' then Some ''function''
      else None)"

definition VISITOR_UnaryExpression ::
  "path \<Rightarrow> string \<Rightarrow> expr \<Rightarrow> hoist_state \<Rightarrow> expr option" where
  "VISITOR_UnaryExpression p op arg st =
     (if op = ''typeof'' \<and> isIdentifier arg \<and> TYPEOF (identifier_name arg) \<noteq> None \<and>
         \<not> in_scope p st (identifier_name arg) \<and> \<not> data_shouldWrap p
      then map_option StringLiteral (TYPEOF (identifier_name arg))
      else None)"

text \<open>
  What the call handler reads from a binding that Babel's scope analysis has found: is
  it constant, and for each reference to it the parent of the reference and the key
  under which the reference hangs there.
\<close>

record binding =
  binding_constant :: bool
  referencePaths :: "(node \<times> string) list"

fun static_member_of :: "node \<times> string \<Rightarrow> bool" where
  "static_member_of (Expr (MemberExpression obj pr c), k) =
     (k = ''object'' \<and> ((\<not> c \<and> isIdentifier pr) \<or> isStringLiteral pr))"
| "static_member_of (n, k) = False"

fun accessed_member :: "node \<times> string \<Rightarrow> string" where
  "accessed_member (Expr (MemberExpression obj pr c), k) = property_name pr"
| "accessed_member (n, k) = []"

fun identifier_key :: "property \<Rightarrow> bool" where
  "identifier_key (ObjectProperty k v c) = isIdentifier k"
| "identifier_key (RestElement a) = False"

fun key_name :: "property \<Rightarrow> string" where
  "key_name (ObjectProperty k v c) = identifier_name k"
| "key_name (RestElement a) = []"

text \<open>
  Lines 557 to 601: the object pattern that destructures the imported namespace, if the
  call stands in one of the shapes \<^verbatim>\<open>import(s).then(({a}) => ...)\<close>,
  \<^verbatim>\<open>let {a} = await import(s)\<close>, \<^verbatim>\<open>({a} = await import(s))\<close>; or the name to which the
  namespace is bound, in \<^verbatim>\<open>import(s).then(ns => ...)\<close> and \<^verbatim>\<open>let ns = await import(s)\<close>.
\<close>

datatype continuation =
    Properties "property list"
  | Bound string
  | Neither

fun pattern_or_name :: "expr \<Rightarrow> continuation" where
  "pattern_or_name (ObjectPattern props) = Properties props"
| "pattern_or_name (Identifier n) = Bound n"
| "pattern_or_name e = Neither"

fun function_params_of :: "expr \<Rightarrow> expr list option" where
  "function_params_of (FunctionExpression n ps b) = Some ps"
| "function_params_of (ArrowFunctionExpression ps b) = Some ps"
| "function_params_of e = None"

definition import_continuation :: "path \<Rightarrow> continuation" where
  "import_continuation p =
     (case parent p of
        Expr (MemberExpression obj pr c) \<Rightarrow>
          (if key p = ''object'' \<and> isIdentifierNamed pr ''then'' \<and> parentKey p = ''callee''
           then (case grandparent p of
                   Expr (CallExpression f [cb]) \<Rightarrow>
                     (case function_params_of cb of
                        Some [param] \<Rightarrow> pattern_or_name param
                      | _ \<Rightarrow> Neither)
                 | _ \<Rightarrow> Neither)
           else Neither)
      | Expr (AwaitExpression a) \<Rightarrow>
          (case grandparent p of
             Declarator (VariableDeclarator i init) \<Rightarrow>
               (if parentKey p = ''init'' then pattern_or_name i else Neither)
           | Expr (AssignmentExpression l r) \<Rightarrow>
               (if parentKey p = ''right'' \<and> isObjectPattern l then pattern_or_name l
                else Neither)
           | _ \<Rightarrow> Neither)
      | _ \<Rightarrow> Neither)"

text \<open>
  Lines 603 to 633: the members of the namespace that the continuation reads, when they
  can be told statically. \<^verbatim>\<open>getBinding\<close> is Babel's lookup of a name from the scope
  where the handler looks it up.
\<close>

definition memberAccesses ::
  "(string \<Rightarrow> binding option) \<Rightarrow> path \<Rightarrow> hoist_state \<Rightarrow> string list option" where
  "memberAccesses getBinding p st =
     (case import_continuation p of
        Properties props \<Rightarrow>
          (if list_all identifier_key props then Some (map key_name props) else None)
      | Bound n \<Rightarrow>
          (case getBinding n of
             Some b \<Rightarrow>
               (if \<not> data_shouldWrap p \<and> binding_constant b \<and>
                   list_all static_member_of (referencePaths b)
                then Some (map accessed_member (referencePaths b))
                else None)
           | None \<Rightarrow> None)
      | Neither \<Rightarrow> None)"

fun update_first :: "('a \<Rightarrow> bool) \<Rightarrow> ('a \<Rightarrow> 'a) \<Rightarrow> 'a list \<Rightarrow> 'a list" where
  "update_first P f [] = []"
| "update_first P f (x # xs) = (if P x then f x # xs else x # update_first P f xs)"

definition dep_symbols_set :: "string \<Rightarrow> string \<Rightarrow> dependency \<Rightarrow> dependency" where
  "dep_symbols_set exported loc d =
     d\<lparr>dep_symbols := symbols_set exported loc False (dep_symbols d)\<rparr>"

text \<open>Lines 534 to 663: what the handler does to the dependency it has found.\<close>

definition require_dependency ::
  "(string \<Rightarrow> binding option) \<Rightarrow> path \<Rightarrow> hoist_state \<Rightarrow> string \<Rightarrow> dependency \<Rightarrow> dependency"
  where
  "require_dependency getBinding p st source dep =
     (let dep1 = (if \<not> statementTop p \<or> condOrFun p then dep\<lparr>dep_shouldWrap := True\<rparr> else dep);
          accesses = (if isAsync dep then memberAccesses getBinding p st else None);
          dep2 = dep1\<lparr>dep_symbols := ensure (dep_symbols dep1)\<rparr>
      in case accesses of
           Some names \<Rightarrow>
             fold (\<lambda>name. dep_symbols_set name
                     (getName (hs_asset st) ''importAsync'' [dep_id dep, name])) names dep2
         | None \<Rightarrow>
             dep_symbols_set ''*'' (getName (hs_asset st) ''require'' [source])
               (dep2\<lparr>dep_isCommonJS := True\<rparr>))"

text \<open>Lines 513 to 672.\<close>

definition VISITOR_CallExpression ::
  "(string \<Rightarrow> binding option) \<Rightarrow> path \<Rightarrow> expr \<Rightarrow> expr list \<Rightarrow> hoist_state \<Rightarrow>
   hoist_state \<times> expr option" where
  "VISITOR_CallExpression getBinding p callee args st =
     (case args of
        [StringLiteral source] \<Rightarrow>
          (if in_scope p st ''require'' then (st, None)
           else if isIdentifierNamed callee ''require''
           then (case find (\<lambda>d. moduleSpecifier d = source) (dependencies (hs_asset st)) of
                   None \<Rightarrow> (st, None)
                 | Some dep \<Rightarrow>
                     (update_asset
                        (\<lambda>a. a\<lparr>meta_isCommonJS := (meta_isCommonJS a \<or> \<not> isAsync dep),
                               dependencies :=
                                 update_first (\<lambda>d. moduleSpecifier d = source)
                                   (require_dependency getBinding p st source)
                                   (dependencies a)\<rparr>) st,
                      Some (CallExpression (Identifier ''$parcel$require'')
                              [StringLiteral (asset_id (hs_asset st)), StringLiteral source])))
           else if matchesPattern callee [''require'', ''resolve'']
           then (st, Some (CallExpression (Identifier ''$parcel$require$resolve'')
                             [StringLiteral (asset_id (hs_asset st)), StringLiteral source]))
           else (st, None))
      | _ \<Rightarrow> (st, None))"

section \<open>The walk of the main visitor\<close>

text \<open>
  What the walk takes from outside the embedded code:
  \<^item> \<^verbatim>\<open>getBinding\<close>: the binding that Babel's scope analysis finds for a name, from the
    place where the call handler standing at the given path looks it up (lines 579 to
    581 and 590 to 592);
  \<^item> \<^verbatim>\<open>rename\<close>: \<^verbatim>\<open>rename(scope, oldName, newName)\<close> of \<^verbatim>\<open>./renamer\<close> on the program
    scope, as a function of the program body;
  \<^item> \<^verbatim>\<open>esm\<close>: the handlers for import and export declarations of lines 674 to 937
    with what they call, which are not embedded: from the asset, the path and the
    declaration to the new asset and the statements that take the declaration's place.
\<close>

record environment =
  getBinding :: "path \<Rightarrow> string \<Rightarrow> binding option"
  rename :: "string \<Rightarrow> string \<Rightarrow> stmt list \<Rightarrow> stmt list"
  esm :: "asset \<Rightarrow> path \<Rightarrow> stmt \<Rightarrow> asset \<times> stmt list"

text \<open>
  What the walk of a statement yields: the statements that stand in its place, or, after
  the export handler has called \<^verbatim>\<open>path.insertBefore\<close> on an assignment that is the
  expression of this statement, the inserted statement, whose right-hand side has not
  been visited yet, and the statement itself.
\<close>

datatype item =
    Done "stmt list"
  | Deferred stmt stmt

text \<open>
  The path of the right-hand side that the export handler has moved into the inserted
  statement \<^verbatim>\<open>var id = rhs;\<close> or \<^verbatim>\<open>id = rhs;\<close>, when the inserted statement stands at
  path \<^verbatim>\<open>q\<close>; and the inserted statement with the right-hand side as the walk leaves it.
\<close>

fun deferred_path :: "path \<Rightarrow> stmt \<Rightarrow> path" where
  "deferred_path q (VariableDeclaration k (d # ds)) =
     child (child q (Stmt (VariableDeclaration k (d # ds))) ''declarations'') (Declarator d) ''init''"
| "deferred_path q (ExpressionStatement e) =
     child (child q (Stmt (ExpressionStatement e)) ''expression'') (Expr e) ''right''"
| "deferred_path q s = q"

fun with_init :: "stmt \<Rightarrow> expr \<Rightarrow> stmt" where
  "with_init (VariableDeclaration k [VariableDeclarator i init]) r =
     VariableDeclaration k [VariableDeclarator i (Some r)]"
| "with_init (ExpressionStatement (AssignmentExpression i x)) r =
     ExpressionStatement (AssignmentExpression i r)"
| "with_init s r = s"

fun single :: "stmt list \<Rightarrow> stmt" where
  "single [s] = s"
| "single ss = BlockStatement ss"

text \<open>The operands of the assignment that is the expression of a statement.\<close>

fun as_assignment :: "stmt \<Rightarrow> (expr \<times> expr) option" where
  "as_assignment (ExpressionStatement (AssignmentExpression l r)) = Some (l, r)"
| "as_assignment s = None"

fun is_var_declaration :: "stmt \<Rightarrow> bool" where
  "is_var_declaration (VariableDeclaration k ds) = True"
| "is_var_declaration s = False"

text \<open>
  Babel's traversal with the main visitor. On entering a node its handler runs; when the
  handler has replaced the node, Babel visits the replacement instead. Every replacement
  made by these handlers is an identifier whose name begins with \<^verbatim>\<open>$\<close>, one of the
  identifiers \<^verbatim>\<open>null\<close>, \<^verbatim>\<open>undefined\<close> and \<^verbatim>\<open>parcelRequire\<close>, a string literal, or a call
  with two string arguments of such an identifier: no handler does anything there, and
  the walk leaves a replacement as it is.

  \<^verbatim>\<open>path.insertBefore\<close> from the export handler follows Babel:
  \<^item> when the assignment is the expression of a statement in a statement list, the
    inserted statement goes before that statement and is visited after the rest of the
    list (\<^verbatim>\<open>walk_items\<close>, then \<^verbatim>\<open>walk_deferred\<close>);
  \<^item> when that statement is not in a list (the branch of an \<^verbatim>\<open>if\<close>), a block takes
    its place (\<^verbatim>\<open>walk_single\<close>);
  \<^item> when the assignment stands inside an expression, it becomes the sequence
    \<^verbatim>\<open>(id = rhs, exports.K = id)\<close>, and a declared \<^verbatim>\<open>id\<close> is pushed to the scope.
\<close>

function (sequential)
    walk_expr :: "environment \<Rightarrow> path \<Rightarrow> hoist_state \<Rightarrow> expr \<Rightarrow> hoist_state \<times> expr"
and walk_operands ::
  "environment \<Rightarrow> path \<Rightarrow> hoist_state \<Rightarrow> expr \<Rightarrow> expr \<Rightarrow> expr option \<Rightarrow> hoist_state \<times> expr"
and walk_exprs ::
  "environment \<Rightarrow> path \<Rightarrow> hoist_state \<Rightarrow> expr list \<Rightarrow> hoist_state \<times> expr list"
and walk_property ::
  "environment \<Rightarrow> path \<Rightarrow> hoist_state \<Rightarrow> property \<Rightarrow> hoist_state \<times> property"
and walk_properties ::
  "environment \<Rightarrow> path \<Rightarrow> hoist_state \<Rightarrow> property list \<Rightarrow> hoist_state \<times> property list"
and walk_stmt :: "environment \<Rightarrow> path \<Rightarrow> hoist_state \<Rightarrow> stmt \<Rightarrow> hoist_state \<times> item"
and walk_single :: "environment \<Rightarrow> path \<Rightarrow> hoist_state \<Rightarrow> stmt \<Rightarrow> hoist_state \<times> stmt"
and walk_items ::
  "environment \<Rightarrow> path \<Rightarrow> hoist_state \<Rightarrow> stmt list \<Rightarrow> hoist_state \<times> item list"
and walk_deferred ::
  "environment \<Rightarrow> path \<Rightarrow> hoist_state \<Rightarrow> stmt list \<Rightarrow> item list \<Rightarrow> hoist_state \<times> stmt list"
and walk_stmts ::
  "environment \<Rightarrow> path \<Rightarrow> hoist_state \<Rightarrow> stmt list \<Rightarrow> hoist_state \<times> stmt list"
and walk_declarator ::
  "environment \<Rightarrow> path \<Rightarrow> hoist_state \<Rightarrow> declarator \<Rightarrow> hoist_state \<times> declarator"
and walk_declarators ::
  "environment \<Rightarrow> path \<Rightarrow> hoist_state \<Rightarrow> declarator list \<Rightarrow> hoist_state \<times> declarator list"
where
  "walk_expr env p st (Identifier n) =
     (if isReferenced p
      then (case VISITOR_ReferencedIdentifier p n st of
              (st1, None) \<Rightarrow> (st1, Identifier n)
            | (st1, Some r) \<Rightarrow> (st1, r))
      else (st, Identifier n))"
| "walk_expr env p st (StringLiteral v) = (st, StringLiteral v)"
| "walk_expr env p st (NumericLiteral v) = (st, NumericLiteral v)"
| "walk_expr env p st (BooleanLiteral v) = (st, BooleanLiteral v)"
| "walk_expr env p st ThisExpression =
     (case VISITOR_ThisExpression p st of
        (st1, None) \<Rightarrow> (st1, ThisExpression)
      | (st1, Some r) \<Rightarrow> (st1, r))"
| "walk_expr env p st (MemberExpression obj pr c) =
     (case VISITOR_MemberExpression p (MemberExpression obj pr c) st of
        (st1, Some r) \<Rightarrow> (st1, r)
      | (st1, None) \<Rightarrow>
          (case walk_expr env (child p (Expr (MemberExpression obj pr c)) ''object'') st1 obj of
             (st2, obj') \<Rightarrow>
          (case walk_expr env (child p (Expr (MemberExpression obj' pr c)) ''property'') st2 pr of
             (st3, pr') \<Rightarrow> (st3, MemberExpression obj' pr' c))))"
| "walk_expr env p st (CallExpression f args) =
     (case VISITOR_CallExpression (getBinding env p) p f args st of
        (st1, Some r) \<Rightarrow> (st1, r)
      | (st1, None) \<Rightarrow>
          (case walk_expr env (child p (Expr (CallExpression f args)) ''callee'') st1 f of
             (st2, f') \<Rightarrow>
          (case walk_exprs env (child p (Expr (CallExpression f' args)) ''arguments'') st2 args of
             (st3, args') \<Rightarrow> (st3, CallExpression f' args'))))"
| "walk_expr env p st (AssignmentExpression l r) =
     (case VISITOR_AssignmentExpression p l r st of
        (st1, Unchanged) \<Rightarrow> walk_operands env p st1 l r None
      | (st1, LeftReplaced l1) \<Rightarrow> walk_operands env p st1 l r (Some l1)
      | (st1, Exported l1 r1 ins) \<Rightarrow>
          (case walk_expr env
                  (child
                     (child p
                        (Expr (SequenceExpression
                                 [AssignmentExpression r1 r, AssignmentExpression l1 r1]))
                        ''expressions'')
                     (Expr (AssignmentExpression r1 r)) ''right'')
                  (if is_var_declaration ins
                   then scope_push (VariableDeclarator r1 None) st1 else st1) r of
             (st2, r') \<Rightarrow>
               (st2, SequenceExpression
                       [AssignmentExpression r1 r', AssignmentExpression l1 r1])))"
| "walk_expr env p st (UnaryExpression op a) =
     (case VISITOR_UnaryExpression p op a st of
        Some r \<Rightarrow> (st, r)
      | None \<Rightarrow>
          (case walk_expr env (child p (Expr (UnaryExpression op a)) ''argument'') st a of
             (st1, a') \<Rightarrow> (st1, UnaryExpression op a')))"
| "walk_expr env p st (AwaitExpression a) =
     (case walk_expr env (child p (Expr (AwaitExpression a)) ''argument'') st a of
        (st1, a') \<Rightarrow> (st1, AwaitExpression a'))"
| "walk_expr env p st (ConditionalExpression t c a) =
     (case walk_expr env (branch p (Expr (ConditionalExpression t c a)) ''test'') st t of
        (st1, t') \<Rightarrow>
     (case walk_expr env (branch p (Expr (ConditionalExpression t' c a)) ''consequent'') st1 c of
        (st2, c') \<Rightarrow>
     (case walk_expr env (branch p (Expr (ConditionalExpression t' c' a)) ''alternate'') st2 a of
        (st3, a') \<Rightarrow> (st3, ConditionalExpression t' c' a'))))"
| "walk_expr env p st (LogicalExpression op l r) =
     (case walk_expr env (branch p (Expr (LogicalExpression op l r)) ''left'') st l of
        (st1, l') \<Rightarrow>
     (case walk_expr env (branch p (Expr (LogicalExpression op l' r)) ''right'') st1 r of
        (st2, r') \<Rightarrow> (st2, LogicalExpression op l' r')))"
| "walk_expr env p st (SequenceExpression es) =
     (case walk_exprs env (child p (Expr (SequenceExpression es)) ''expressions'') st es of
        (st1, es') \<Rightarrow> (st1, SequenceExpression es'))"
| "walk_expr env p st (FunctionExpression n ps b) =
     (case walk_exprs env
             (function_params p (Expr (FunctionExpression n ps b))
                (function_bindings n ps b) False) st ps of
        (st1, ps') \<Rightarrow>
     (case walk_stmts env
             (function_body p (Expr (FunctionExpression n ps' b)) b
                (function_bindings n ps b) False) st1 b of
        (st2, b') \<Rightarrow> (st2, FunctionExpression n ps' b')))"
| "walk_expr env p st (ArrowFunctionExpression ps b) =
     (case walk_exprs env
             (function_params p (Expr (ArrowFunctionExpression ps b))
                (function_bindings None ps b) True) st ps of
        (st1, ps') \<Rightarrow>
     (case walk_stmts env
             (function_body p (Expr (ArrowFunctionExpression ps' b)) b
                (function_bindings None ps b) True) st1 b of
        (st2, b') \<Rightarrow> (st2, ArrowFunctionExpression ps' b')))"
| "walk_expr env p st (ObjectExpression props) =
     (case walk_properties env (child p (Expr (ObjectExpression props)) ''properties'') st props of
        (st1, props') \<Rightarrow> (st1, ObjectExpression props'))"
| "walk_expr env p st (ObjectPattern props) =
     (case walk_properties env (child p (Expr (ObjectPattern props)) ''properties'') st props of
        (st1, props') \<Rightarrow> (st1, ObjectPattern props'))"
| "walk_operands env p st l r None =
     (case walk_expr env (child p (Expr (AssignmentExpression l r)) ''left'') st l of
        (st1, l') \<Rightarrow>
     (case walk_expr env (child p (Expr (AssignmentExpression l' r)) ''right'') st1 r of
        (st2, r') \<Rightarrow> (st2, AssignmentExpression l' r')))"
| "walk_operands env p st l r (Some l1) =
     (case walk_expr env (child p (Expr (AssignmentExpression l1 r)) ''right'') st r of
        (st1, r') \<Rightarrow> (st1, AssignmentExpression l1 r'))"
| "walk_exprs env p st [] = (st, [])"
| "walk_exprs env p st (e # es) =
     (case walk_expr env p st e of (st1, e') \<Rightarrow>
     (case walk_exprs env p st1 es of (st2, es') \<Rightarrow> (st2, e' # es')))"
| "walk_property env p st (ObjectProperty k v c) =
     (case walk_expr env (child p (Prop (ObjectProperty k v c)) ''key'') st k of
        (st1, k') \<Rightarrow>
     (case walk_expr env (child p (Prop (ObjectProperty k' v c)) ''value'') st1 v of
        (st2, v') \<Rightarrow> (st2, ObjectProperty k' v' c)))"
| "walk_property env p st (RestElement a) =
     (case walk_expr env (child p (Prop (RestElement a)) ''argument'') st a of
        (st1, a') \<Rightarrow> (st1, RestElement a'))"
| "walk_properties env p st [] = (st, [])"
| "walk_properties env p st (x # xs) =
     (case walk_property env p st x of (st1, x') \<Rightarrow>
     (case walk_properties env p st1 xs of (st2, xs') \<Rightarrow> (st2, x' # xs')))"
| "walk_stmt env p st (ExpressionStatement e) =
     (case as_assignment (ExpressionStatement e) of
        Some (l, r) \<Rightarrow>
          (case VISITOR_AssignmentExpression
                  (child p (Stmt (ExpressionStatement e)) ''expression'') l r st of
             (st1, Unchanged) \<Rightarrow>
               (case walk_operands env (child p (Stmt (ExpressionStatement e)) ''expression'')
                       st1 l r None of
                  (st2, e') \<Rightarrow> (st2, Done [ExpressionStatement e']))
           | (st1, LeftReplaced l1) \<Rightarrow>
               (case walk_operands env (child p (Stmt (ExpressionStatement e)) ''expression'')
                       st1 l r (Some l1) of
                  (st2, e') \<Rightarrow> (st2, Done [ExpressionStatement e']))
           | (st1, Exported l1 r1 ins) \<Rightarrow>
               (st1, Deferred ins (ExpressionStatement (AssignmentExpression l1 r1))))
      | None \<Rightarrow>
          (case walk_expr env (child p (Stmt (ExpressionStatement e)) ''expression'') st e of
             (st1, e') \<Rightarrow> (st1, Done [ExpressionStatement e'])))"
| "walk_stmt env p st (VariableDeclaration kind ds) =
     (case walk_declarators env (child p (Stmt (VariableDeclaration kind ds)) ''declarations'')
             st ds of
        (st1, ds') \<Rightarrow> (st1, Done [VariableDeclaration kind ds']))"
| "walk_stmt env p st (ReturnStatement None) = (st, Done [ReturnStatement None])"
| "walk_stmt env p st (ReturnStatement (Some e)) =
     (case walk_expr env (child p (Stmt (ReturnStatement (Some e))) ''argument'') st e of
        (st1, e') \<Rightarrow> (st1, Done [ReturnStatement (Some e')]))"
| "walk_stmt env p st (FunctionDeclaration n ps b) =
     (case walk_exprs env
             (function_params p (Stmt (FunctionDeclaration n ps b))
                (function_bindings None ps b) False) st ps of
        (st1, ps') \<Rightarrow>
     (case walk_stmts env
             (function_body p (Stmt (FunctionDeclaration n ps' b)) b
                (function_bindings None ps b) False) st1 b of
        (st2, b') \<Rightarrow> (st2, Done [FunctionDeclaration n ps' b'])))"
| "walk_stmt env p st (IfStatement t c None) =
     (case walk_expr env (child p (Stmt (IfStatement t c None)) ''test'') st t of
        (st1, t') \<Rightarrow>
     (case walk_single env (child p (Stmt (IfStatement t' c None)) ''consequent'') st1 c of
        (st2, c') \<Rightarrow> (st2, Done [IfStatement t' c' None])))"
| "walk_stmt env p st (IfStatement t c (Some a)) =
     (case walk_expr env (child p (Stmt (IfStatement t c (Some a))) ''test'') st t of
        (st1, t') \<Rightarrow>
     (case walk_single env (child p (Stmt (IfStatement t' c (Some a))) ''consequent'') st1 c of
        (st2, c') \<Rightarrow>
     (case walk_single env (child p (Stmt (IfStatement t' c' (Some a))) ''alternate'') st2 a of
        (st3, a') \<Rightarrow> (st3, Done [IfStatement t' c' (Some a')]))))"
| "walk_stmt env p st (BlockStatement ss) =
     (case walk_stmts env (block_body p ss) st ss of
        (st1, ss') \<Rightarrow> (st1, Done [BlockStatement ss']))"
| "walk_stmt env p st (ImportDeclaration sp src) =
     (case esm env (hs_asset st) p (ImportDeclaration sp src) of
        (a, ss) \<Rightarrow> (st\<lparr>hs_asset := a\<rparr>, Done ss))"
| "walk_stmt env p st (ExportNamedDeclaration d sp src) =
     (case esm env (hs_asset st) p (ExportNamedDeclaration d sp src) of
        (a, ss) \<Rightarrow> (st\<lparr>hs_asset := a\<rparr>, Done ss))"
| "walk_stmt env p st (ExportDefaultDeclaration e) =
     (case esm env (hs_asset st) p (ExportDefaultDeclaration e) of
        (a, ss) \<Rightarrow> (st\<lparr>hs_asset := a\<rparr>, Done ss))"
| "walk_stmt env p st (ExportAllDeclaration src) =
     (case esm env (hs_asset st) p (ExportAllDeclaration src) of
        (a, ss) \<Rightarrow> (st\<lparr>hs_asset := a\<rparr>, Done ss))"
| "walk_single env p st s =
     (case walk_stmt env p st s of
        (st1, Done ss) \<Rightarrow> (st1, single ss)
      | (st1, Deferred ins s') \<Rightarrow>
          (case as_assignment s of
             Some (l, r) \<Rightarrow>
               (case walk_expr env (deferred_path (block_body p [ins, s']) ins) st1 r of
                  (st2, r') \<Rightarrow> (st2, BlockStatement [with_init ins r', s']))
           | None \<Rightarrow> (st1, BlockStatement [ins, s'])))"
| "walk_items env p st [] = (st, [])"
| "walk_items env p st (s # ss) =
     (case walk_stmt env p st s of (st1, x) \<Rightarrow>
     (case walk_items env p st1 ss of (st2, xs) \<Rightarrow> (st2, x # xs)))"
| "walk_deferred env p st (s # ss) (Done xs # items) =
     (case walk_deferred env p st ss items of (st1, out) \<Rightarrow> (st1, xs @ out))"
| "walk_deferred env p st (s # ss) (Deferred ins s' # items) =
     (case as_assignment s of
        Some (l, r) \<Rightarrow>
          (case walk_expr env (deferred_path p ins) st r of (st1, r') \<Rightarrow>
          (case walk_deferred env p st1 ss items of
             (st2, out) \<Rightarrow> (st2, with_init ins r' # s' # out)))
      | None \<Rightarrow>
          (case walk_deferred env p st ss items of (st1, out) \<Rightarrow> (st1, ins # s' # out)))"
| "walk_deferred env p st ss items = (st, [])"
| "walk_stmts env p st ss =
     (case walk_items env p st ss of (st1, items) \<Rightarrow> walk_deferred env p st1 ss items)"
| "walk_declarator env p st (VariableDeclarator i None) =
     (case walk_expr env (child p (Declarator (VariableDeclarator i None)) ''id'') st i of
        (st1, i') \<Rightarrow> (st1, VariableDeclarator i' None))"
| "walk_declarator env p st (VariableDeclarator i (Some e)) =
     (case walk_expr env (child p (Declarator (VariableDeclarator i (Some e))) ''id'') st i of
        (st1, i') \<Rightarrow>
     (case walk_expr env (child p (Declarator (VariableDeclarator i' (Some e))) ''init'') st1 e of
        (st2, e') \<Rightarrow> (st2, VariableDeclarator i' (Some e'))))"
| "walk_declarators env p st [] = (st, [])"
| "walk_declarators env p st (d # ds) =
     (case walk_declarator env p st d of (st1, d') \<Rightarrow>
     (case walk_declarators env p st1 ds of (st2, ds') \<Rightarrow> (st2, d' # ds')))"
  by pat_completeness auto

termination
  by (relation "measure
        (case_sum
          (case_sum
            (case_sum (\<lambda>(env, p, st, e). 3 * size e)
              (case_sum (\<lambda>(env, p, st, l, r, o1). 3 * (size l + size r) + 1)
                        (\<lambda>(env, p, st, es). 3 * size_list size es + 1)))
            (case_sum (\<lambda>(env, p, st, x). 3 * size x)
              (case_sum (\<lambda>(env, p, st, xs). 3 * size_list size xs + 1)
                        (\<lambda>(env, p, st, s). 3 * size s))))
          (case_sum
            (case_sum (\<lambda>(env, p, st, s). 3 * size s + 1)
              (case_sum (\<lambda>(env, p, st, ss). 3 * size_list size ss + 1)
                        (\<lambda>(env, p, st, ss, items). 3 * size_list size ss + 1)))
            (case_sum (\<lambda>(env, p, st, ss). 3 * size_list size ss + 2)
              (case_sum (\<lambda>(env, p, st, d). 3 * size d)
                        (\<lambda>(env, p, st, ds). 3 * size_list size ds + 1)))))")
     (auto elim!: as_assignment.elims)

declare walk_single.simps [simp del] walk_stmts.simps [simp del]

section \<open>\<^verbatim>\<open>Program.exit\<close> and \<^verbatim>\<open>hoist\<close>\<close>

text \<open>Lines 57 to 67 and 69 to 71.\<close>

definition WRAPPER_TEMPLATE :: "expr \<Rightarrow> stmt list \<Rightarrow> stmt" where
  "WRAPPER_TEMPLATE NAME BODY =
     VariableDeclaration ''var''
       [VariableDeclarator NAME
          (Some (CallExpression
                   (MemberExpression
                      (FunctionExpression None []
                         ([VariableDeclaration ''var''
                             [VariableDeclarator (Identifier ''exports'') (Some ThisExpression)],
                           VariableDeclaration ''var''
                             [VariableDeclarator (Identifier ''module'')
                                (Some (ObjectExpression
                                         [ObjectProperty (Identifier ''exports'')
                                            ThisExpression False]))]] @
                          BODY @
                          [ReturnStatement
                             (Some (MemberExpression (Identifier ''module'')
                                      (Identifier ''exports'') False))]))
                      (Identifier ''call'') False)
                   [ObjectExpression []]))]"

definition ESMODULE_TEMPLATE :: stmt where
  "ESMODULE_TEMPLATE =
     ExpressionStatement
       (AssignmentExpression
          (MemberExpression (Identifier ''exports'') (Identifier ''__esModule'') False)
          (BooleanLiteral True))"

text \<open>
  The names that a crawl of the program scope registers as globals: the referenced
  identifiers and the targets of assignments that no scope binds.
\<close>

fun global_names :: "path \<times> node \<Rightarrow> string list" where
  "global_names (q, Expr (Identifier n)) =
     (if isReferenced q \<and> \<not> hasBinding (scope q) n then [n] else [])"
| "global_names (q, Expr (AssignmentExpression l r)) =
     filter (\<lambda>n. \<not> hasBinding (scope q) n) (pattern_ids l)"
| "global_names (q, n) = []"

definition crawl_globals :: "stmt list \<Rightarrow> string list" where
  "crawl_globals ss = concat (map global_names (paths_program ss))"

definition startsWith :: "string \<Rightarrow> string \<Rightarrow> bool" where
  "startsWith name pre = (take (length pre) name = pre)"

text \<open>
  \<^verbatim>\<open>scope.push\<close> on the program body at exit: the declarator joins the \<^verbatim>\<open>var\<close>
  declaration at the top if \<^verbatim>\<open>scope.push\<close> has made one before, else a new declaration
  is put at the top.
\<close>

fun push_declaration :: "declarator \<Rightarrow> bool \<Rightarrow> stmt list \<Rightarrow> stmt list" where
  "push_declaration d True (VariableDeclaration k ds # rest) =
     VariableDeclaration k (ds @ [d]) # rest"
| "push_declaration d had ss = VariableDeclaration ''var'' [d] # ss"

text \<open>Lines 278 to 284, and the names of the bindings afterwards.\<close>

definition var_name :: "asset \<Rightarrow> string \<Rightarrow> string" where
  "var_name a name =
     (if \<not> startsWith name (''$'' @ asset_id a) then getName a ''var'' [name] else name)"

definition rename_bindings :: "environment \<Rightarrow> asset \<Rightarrow> string list \<Rightarrow> stmt list \<Rightarrow> stmt list" where
  "rename_bindings env a names ss =
     fold (\<lambda>name b. if \<not> startsWith name (''$'' @ asset_id a)
                     then rename env name (getName a ''var'' [name]) b else b) names ss"

text \<open>Lines 294 to 302.\<close>

definition exit_symbols :: "string \<Rightarrow> asset \<Rightarrow> asset" where
  "exit_symbols exportsName a =
     (if meta_isCommonJS a
      then asset_symbols_set ''*'' exportsName
             (if meta_resolveExportsBailedOut a
              then a\<lparr>asset_symbols :=
                       fold symbols_delete (exportSymbols (asset_symbols a)) (asset_symbols a)\<rparr>
              else a)
      else a)"

text \<open>
  Lines 252 to 306. The program that \<^verbatim>\<open>t.program\<close> builds around the wrapper has no
  directives.
\<close>

definition Program_exit ::
  "environment \<Rightarrow> bool \<Rightarrow> hoist_state \<Rightarrow> program \<Rightarrow> asset \<times> program" where
  "Program_exit env sw st prog =
     (let a = hs_asset st;
          exportsIdentifier = getIdentifier a ''exports'' []
      in if sw
         then ((asset_symbols_set ''*'' (identifier_name exportsIdentifier) a)
                 \<lparr>meta_isCommonJS := True, meta_isES6Module := False\<rparr>,
               \<lparr>directives = [],
                body = [WRAPPER_TEMPLATE exportsIdentifier
                          (if meta_isES6Module a then ESMODULE_TEMPLATE # body prog
                           else body prog)]\<rparr>)
         else (let names = remdups (program_bindings (body prog));
                   renamed = rename_bindings env a names (body prog)
               in (exit_symbols (identifier_name exportsIdentifier) a,
                   prog\<lparr>body :=
                     (if identifier_name exportsIdentifier \<in> set (crawl_globals (body prog)) \<and>
                         identifier_name exportsIdentifier \<notin> set (map (var_name a) names)
                      then push_declaration
                             (VariableDeclarator exportsIdentifier (Some (ObjectExpression [])))
                             (pushed st \<noteq> []) renamed
                      else renamed)\<rparr>)))"

text \<open>
  The traversal \<^verbatim>\<open>traverse(ast.program, VISITOR, null, asset)\<close> of line 99: the program
  is entered, its directives and its body are walked, the program is left with the
  value of \<^verbatim>\<open>shouldWrap\<close> that \<^verbatim>\<open>Program.enter\<close> has stored. The declaration that
  \<^verbatim>\<open>scope.push\<close> keeps stands at the top of the body.
\<close>

definition body_walk :: "environment \<Rightarrow> asset \<Rightarrow> program \<Rightarrow> hoist_state \<times> bool \<times> program" where
  "body_walk env a prog =
     (case Program_enter a (body prog) of
        (st0, sw, body0) \<Rightarrow>
          (case walk_stmts env (program_child (bindings st0) sw) st0 body0 of
             (st1, body1) \<Rightarrow>
               (st1, sw,
                \<lparr>directives = VISITOR_DirectiveLiteral (directives prog),
                 body = (if pushed st1 = [] then []
                         else [VariableDeclaration ''var'' (pushed st1)]) @ body1\<rparr>)))"

definition traverse_program :: "environment \<Rightarrow> asset \<Rightarrow> program \<Rightarrow> asset \<times> program" where
  "traverse_program env a prog =
     (case body_walk env a prog of (st, sw, prog1) \<Rightarrow> Program_exit env sw st prog1)"

text \<open>Lines 94 to 101. The result holds the asset and the tree given to \<^verbatim>\<open>setAST\<close>.\<close>

datatype error = UnsupportedAST

record ast =
  ast_type :: string
  ast_version :: string
  ast_program :: program

definition hoist :: "environment \<Rightarrow> asset \<Rightarrow> ast \<Rightarrow> error + asset \<times> ast" where
  "hoist env a t =
     (if ast_type t \<noteq> ''babel'' \<or> ast_version t \<noteq> ''7.0.0'' then Inl UnsupportedAST
      else (case traverse_program env a (ast_program t) of
              (a', prog) \<Rightarrow> Inr (a', t\<lparr>ast_program := prog\<rparr>)))"



section \<open>Examples\<close>

definition example_asset :: asset where
  "example_asset =
     \<lparr>asset_id = ''a1'', filePath = ''/src/index.js'', isSource = True, env_isNode = False,
      meta_id = None, meta_exportsIdentifier = None, meta_isCommonJS = False,
      meta_isES6Module = False, meta_resolveExportsBailedOut = False,
      asset_symbols = None, dependencies = [],
      newDependencyId = (\<lambda>spec. ''d_'' @ spec)\<rparr>"

text \<open>\<^verbatim>\<open>module["id"];\<close>\<close>

definition module_string_access :: "stmt list" where
  "module_string_access =
     [ExpressionStatement (MemberExpression (Identifier ''module'') (StringLiteral ''id'') True)]"


text \<open>\<^verbatim>\<open>1;\<close>\<close>

definition plain_program :: "stmt list" where
  "plain_program = [ExpressionStatement (NumericLiteral 1)]"

text \<open>
  An environment: no binding is found, renaming changes nothing, and a declaration of
  the module syntax is left where it is.
\<close>

definition env0 :: environment where
  "env0 = \<lparr>getBinding = (\<lambda>p n. None), rename = (\<lambda>old new ss. ss), esm = (\<lambda>a p s. (a, [s]))\<rparr>"

definition babel_ast :: "stmt list \<Rightarrow> ast" where
  "babel_ast ss =
     \<lparr>ast_type = ''babel'', ast_version = ''7.0.0'',
      ast_program = \<lparr>directives = [], body = ss\<rparr>\<rparr>"

definition plain_state :: hoist_state where
  "plain_state =
     \<lparr>hs_asset = example_asset, cjsExportsReassigned = False,
      bindings = [], globals = [], pushed = []\<rparr>"






section \<open>Properties of the pre-scan\<close>

lemma visit_all_stopped: "stopped st \<Longrightarrow> visit_all xs st = st"
  by (cases xs) simp_all

lemma visit_all_append: "visit_all (xs @ ys) st = visit_all ys (visit_all xs st)"
  by (induction xs arbitrary: st) (simp_all add: visit_all_stopped)

lemma prescan_specifiers_visits:
  "prescan_specifiers xs st = visit_all (map (\<lambda>(q, e). (q, Expr e)) xs) st"
  by (induction xs st rule: prescan_specifiers.induct) simp_all

lemma visit_all_paths_expr:
  "visit_all (paths_expr p e) st =
     (if stopped st then st else visit_all (tl (paths_expr p e)) (prescan_enter_expr p e st))"
  by (cases e) simp_all

lemma visit_all_paths_stmt:
  "visit_all (paths_stmt p s) st =
     (if stopped st then st
      else visit_all (tl (paths_stmt p s)) (fst (prescan_enter_stmt p s st)))"
proof (cases s)
  case (ReturnStatement a)
  then show ?thesis by (cases a) simp_all
next
  case (IfStatement t c a)
  then show ?thesis by (cases a) simp_all
next
  case (ExportNamedDeclaration d sp src)
  then show ?thesis by (cases d) simp_all
qed simp_all

lemma walk_visits:
  "fst (prescan_expr p st e) = visit_all (paths_expr p e) st"
  "fst (prescan_sub p st e) = visit_all (tl (paths_expr p e)) st"
  "fst (prescan_exprs p st es) = visit_all (paths_exprs p es) st"
  "fst (prescan_property p st x) = visit_all (paths_property p x) st"
  "fst (prescan_properties p st xs) = visit_all (paths_properties p xs) st"
  "fst (prescan_stmt p st s) = visit_all (paths_stmt p s) st"
  "fst (prescan_substmt p st s) = visit_all (tl (paths_stmt p s)) st"
  "fst (prescan_stmts p st ss) = visit_all (paths_stmts p ss) st"
  "fst (prescan_declarator p st d) = visit_all (paths_declarator p d) st"
  "fst (prescan_declarators p st ds) = visit_all (paths_declarators p ds) st"
proof (induction p st e and p st e and p st es and p st x and p st xs and p st s and p st s
         and p st ss and p st d and p st ds
       rule: prescan_expr_prescan_sub_prescan_exprs_prescan_property_prescan_properties_prescan_stmt_prescan_substmt_prescan_stmts_prescan_declarator_prescan_declarators.induct)
  case (1 p st e)
  then show ?case
    by (simp add: prescan_expr.simps visit_all_paths_expr visit_all_stopped Let_def)
next
  case (25 p st s)
  then show ?case
    by (auto simp: prescan_stmt.simps visit_all_paths_stmt visit_all_stopped
          split: prod.splits)
qed (auto simp: visit_all_append visit_all_stopped prescan_specifiers_visits
       split: prod.splits)

lemma specifier_paths_data:
  "(q, e) \<in> set (specifier_paths p src sps) \<Longrightarrow> data_shouldWrap q = data_shouldWrap p"
  by (induction p src sps rule: specifier_paths.induct) (auto simp: child_def)

lemma paths_data:
  "\<forall>x \<in> set (paths_expr p e). data_shouldWrap (fst x) = data_shouldWrap p"
  "\<forall>x \<in> set (paths_exprs p es). data_shouldWrap (fst x) = data_shouldWrap p"
  "\<forall>x \<in> set (paths_property p y). data_shouldWrap (fst x) = data_shouldWrap p"
  "\<forall>x \<in> set (paths_properties p ys). data_shouldWrap (fst x) = data_shouldWrap p"
  "\<forall>x \<in> set (paths_stmt p s). data_shouldWrap (fst x) = data_shouldWrap p"
  "\<forall>x \<in> set (paths_stmts p ss). data_shouldWrap (fst x) = data_shouldWrap p"
  "\<forall>x \<in> set (paths_declarator p d). data_shouldWrap (fst x) = data_shouldWrap p"
  "\<forall>x \<in> set (paths_declarators p ds). data_shouldWrap (fst x) = data_shouldWrap p"
  by (induction p e and p es and p y and p ys and p s and p ss and p d and p ds
       rule: paths_expr_paths_exprs_paths_property_paths_properties_paths_stmt_paths_stmts_paths_declarator_paths_declarators.induct)
     (auto simp: child_def branch_def function_params_def function_body_def
        function_scope_def block_body_def dest: specifier_paths_data)

lemma visit_flags:
  assumes "\<not> stopped st" "\<not> shouldWrap st" "\<not> data_shouldWrap (fst x)"
  shows "shouldWrap (visit x st) = wrap_trigger x"
    and "stopped (visit x st) = wrap_trigger x"
proof -
  obtain p n where x: "x = (p, n)" by (cases x)
  have "shouldWrap (visit x st) = wrap_trigger x \<and> stopped (visit x st) = wrap_trigger x"
  proof (cases n)
    case (Expr e)
    then show ?thesis using assms x
      by (cases e)
         (auto simp: wrap_trigger_def under_typeof_def prescan_CallExpression_def
            prescan_ReferencedIdentifier_def prescan_MemberExpression_def
            set_isCommonJS_def bailOut_def Let_def
            split: node.splits expr.splits)
  next
    case (Stmt s)
    then show ?thesis using assms x
      by (cases s)
         (auto simp: wrap_trigger_def prescan_ReturnStatement_def set_isCommonJS_def
            set_isES6Module_def)
  qed (use assms x in \<open>auto simp: wrap_trigger_def\<close>)
  then show "shouldWrap (visit x st) = wrap_trigger x"
    and "stopped (visit x st) = wrap_trigger x" by simp_all
qed

lemma visit_all_flags:
  assumes "\<not> stopped st" "\<not> shouldWrap st" "\<forall>x \<in> set xs. \<not> data_shouldWrap (fst x)"
  shows "shouldWrap (visit_all xs st) = list_ex wrap_trigger xs"
  using assms
proof (induction xs arbitrary: st)
  case Nil
  then show ?case by simp
next
  case (Cons x xs)
  show ?case
  proof (cases "wrap_trigger x")
    case True
    with Cons.prems have "stopped (visit x st)" "shouldWrap (visit x st)"
      by (simp_all add: visit_flags)
    with True Cons.prems show ?thesis by (simp add: visit_all_stopped)
  next
    case False
    with Cons.prems have "\<not> stopped (visit x st)" "\<not> shouldWrap (visit x st)"
      by (simp_all add: visit_flags)
    with False Cons show ?thesis by simp
  qed
qed

text \<open>
  Claim C1, as the source has it. The pre-scan sets \<^verbatim>\<open>shouldWrap\<close> exactly when the
  tree holds, among the paths Babel's traversal enters, a free reference to
  \<^verbatim>\<open>module\<close> whose parent is neither \<^verbatim>\<open>typeof module\<close> nor a member access that is
  not computed (\<^verbatim>\<open>module.<id>\<close>), or a return statement with no enclosing function, or
  a call to \<^verbatim>\<open>eval\<close> with no binding of \<^verbatim>\<open>eval\<close>. A computed access such as
  \<^verbatim>\<open>module["id"]\<close> sets it too (line 159).
\<close>

theorem prescan_shouldWrap:
  "shouldWrap (fst (prescan a ss)) = list_ex wrap_trigger (paths_program ss)"
proof -
  have "\<forall>x \<in> set (paths_program ss). \<not> data_shouldWrap (fst x)"
    using paths_data(6) [of "program_child (program_bindings ss) False" ss]
    by (simp add: paths_program_def program_child_def)
  then show ?thesis
    by (simp add: prescan_def paths_program_def walk_visits visit_all_flags)
qed


lemmas prescan_eval =
  prescan_def paths_program_def program_child_def program_bindings_def child_def
  prescan_expr.simps prescan_stmt.simps prescan_ReferencedIdentifier_def
  prescan_MemberExpression_def prescan_CallExpression_def prescan_ReturnStatement_def
  isReferenced_def hasBinding_def matchesPattern_def set_isCommonJS_def set_isES6Module_def
  bailOut_def safe_context_def Let_def

theorem prescan_shouldWrap_witness:
  "shouldWrap (fst (prescan example_asset module_string_access)) \<and>
   list_ex wrap_trigger (paths_program module_string_access)"
  using prescan_shouldWrap [of example_asset module_string_access]
  by (simp add: module_string_access_def paths_program_def program_child_def
        program_bindings_def child_def wrap_trigger_def under_typeof_def isReferenced_def
        hasBinding_def)

text \<open>
  Claim C1 as the specification words it, with \<^verbatim>\<open>module["id"]\<close> among the accesses
  that do not wrap, fails on the program \<^verbatim>\<open>module["id"];\<close>: the pre-scan sets
  \<^verbatim>\<open>shouldWrap\<close> although no path of the tree meets the specification's condition.
\<close>

theorem spec_trigger_counterexample:
  "shouldWrap (fst (prescan example_asset module_string_access)) \<and>
   \<not> list_ex spec_trigger (paths_program module_string_access)"
  by (simp add: module_string_access_def prescan_eval spec_trigger_def under_typeof_def)












section \<open>Properties of \<^verbatim>\<open>hoist\<close> and of the handlers\<close>

text \<open>
  The walk does not descend into what a handler has put in place. This is sound because
  the handlers do nothing on their own replacements: an identifier other than
  \<^verbatim>\<open>exports\<close> and \<^verbatim>\<open>global\<close>, a call of a \<^verbatim>\<open>$\<close> placeholder with two strings, and the
  rewritten export assignment all come out of the walk as they went in.
\<close>

lemma identifier_left_alone:
  "n \<noteq> ''exports'' \<Longrightarrow> n \<noteq> ''global'' \<Longrightarrow>
   walk_expr env p st (Identifier n) = (st, Identifier n)"
  by (simp add: VISITOR_ReferencedIdentifier_def)

lemma dollar_identifier_left_alone:
  "walk_expr env p st (Identifier (''$'' @ n)) = (st, Identifier (''$'' @ n))"
  by (simp add: VISITOR_ReferencedIdentifier_def)

lemma string_literal_left_alone:
  "walk_expr env p st (StringLiteral v) = (st, StringLiteral v)"
  by simp

lemma placeholder_call_left_alone:
  "walk_expr env p st (CallExpression (Identifier (''$'' @ f)) [StringLiteral i, StringLiteral s]) =
     (st, CallExpression (Identifier (''$'' @ f)) [StringLiteral i, StringLiteral s])"
  by (simp add: VISITOR_CallExpression_def VISITOR_ReferencedIdentifier_def)

lemma rewritten_export_left_alone:
  assumes "static_property pr c"
  shows "walk_expr env p st
           (AssignmentExpression (MemberExpression (Identifier (''$'' @ n)) pr c)
              (Identifier (''$'' @ m))) =
         (st, AssignmentExpression (MemberExpression (Identifier (''$'' @ n)) pr c)
                (Identifier (''$'' @ m)))"
  using assms
  by (cases pr)
     (auto simp: VISITOR_AssignmentExpression_def VISITOR_MemberExpression_def
        VISITOR_ReferencedIdentifier_def matchesPattern_def isReferenced_def child_def)

text \<open>
  Claim C8. \<^verbatim>\<open>hoist\<close> fails with \<^verbatim>\<open>UnsupportedAST\<close> when the type of the tree is not
  \<^verbatim>\<open>'babel'\<close> or its version is not \<^verbatim>\<open>'7.0.0'\<close>; the failure carries neither an asset
  nor a tree, so nothing has changed. On a recognised tree the result is that of the
  traversal, and no such failure arises.
\<close>

theorem hoist_UnsupportedAST:
  "(ast_type t \<noteq> ''babel'' \<or> ast_version t \<noteq> ''7.0.0'' \<longrightarrow> hoist env a t = Inl UnsupportedAST) \<and>
   (ast_type t = ''babel'' \<and> ast_version t = ''7.0.0'' \<longrightarrow>
      hoist env a t =
        Inr (fst (traverse_program env a (ast_program t)),
             t\<lparr>ast_program := snd (traverse_program env a (ast_program t))\<rparr>))"
  by (simp add: hoist_def split: prod.splits)

theorem hoist_UnsupportedAST_witness:
  "hoist env0 example_asset ((babel_ast plain_program)\<lparr>ast_version := ''6.0.0''\<rparr>) = Inl UnsupportedAST \<and>
   \<not> isl (hoist env0 example_asset (babel_ast plain_program))"
  using hoist_UnsupportedAST [of "(babel_ast plain_program)\<lparr>ast_version := ''6.0.0''\<rparr>" env0 example_asset]
    hoist_UnsupportedAST [of "babel_ast plain_program" env0 example_asset]
  by (simp add: babel_ast_def)

text \<open>
  Claim C7. On a call \<^verbatim>\<open>require(x)\<close> with a single string-literal argument, with no
  binding of \<^verbatim>\<open>require\<close> in scope and \<^verbatim>\<open>x\<close> the module specifier of no declared
  dependency, the call handler replaces nothing and returns the state as it was; the
  walk of the call leaves the call and the state as they were.
\<close>

lemma find_None: "x \<notin> set (map f xs) \<Longrightarrow> find (\<lambda>d. f d = x) xs = None"
  by (induction xs) auto

theorem require_unknown_dependency:
  assumes "\<not> in_scope p st ''require''"
    and "x \<notin> set (map moduleSpecifier (dependencies (hs_asset st)))"
  shows "VISITOR_CallExpression gb p (Identifier ''require'') [StringLiteral x] st = (st, None) \<and>
         walk_expr env p st (CallExpression (Identifier ''require'') [StringLiteral x]) =
           (st, CallExpression (Identifier ''require'') [StringLiteral x])"
proof -
  have h: "\<And>gb. VISITOR_CallExpression gb p (Identifier ''require'') [StringLiteral x] st = (st, None)"
    using assms by (simp add: VISITOR_CallExpression_def find_None)
  have r: "\<And>q. VISITOR_ReferencedIdentifier q ''require'' st = (st, None)"
    by (simp add: VISITOR_ReferencedIdentifier_def)
  show ?thesis by (simp add: h r)
qed

theorem require_unknown_dependency_witness:
  "\<not> in_scope (program_child [] False) plain_state ''require'' \<and>
   ''./x'' \<notin> set (map moduleSpecifier (dependencies (hs_asset plain_state))) \<and>
   walk_expr env0 (program_child [] False) plain_state
     (CallExpression (Identifier ''require'') [StringLiteral ''./x'']) =
     (plain_state, CallExpression (Identifier ''require'') [StringLiteral ''./x''])"
proof -
  have 1: "\<not> in_scope (program_child [] False) plain_state ''require''"
    by (simp add: in_scope_def hasBinding_def program_child_def plain_state_def)
  have 2: "''./x'' \<notin> set (map moduleSpecifier (dependencies (hs_asset plain_state)))"
    by (simp add: plain_state_def example_asset_def)
  show ?thesis
    using 1 2 require_unknown_dependency [OF 1 2, of "getBinding env0 (program_child [] False)" env0]
    by blast
qed

text \<open>
  Claim C9. On a call \<^verbatim>\<open>require.resolve(s)\<close> with a single string-literal argument and
  no binding of \<^verbatim>\<open>require\<close> in scope, the call handler replaces the call with
  \<^verbatim>\<open>$parcel$require$resolve(asset.id, s)\<close> whatever the dependencies of the asset are,
  while \<^verbatim>\<open>require(s)\<close> is left alone when \<^verbatim>\<open>s\<close> is the specifier of no declared
  dependency.
\<close>

theorem require_resolve_unconditional:
  assumes "\<not> in_scope p st ''require''"
  shows "VISITOR_CallExpression gb p
           (MemberExpression (Identifier ''require'') (Identifier ''resolve'') False)
           [StringLiteral s] st =
         (st, Some (CallExpression (Identifier ''$parcel$require$resolve'')
                      [StringLiteral (asset_id (hs_asset st)), StringLiteral s])) \<and>
         (s \<notin> set (map moduleSpecifier (dependencies (hs_asset st))) \<longrightarrow>
          VISITOR_CallExpression gb p (Identifier ''require'') [StringLiteral s] st = (st, None))"
  using assms by (simp add: VISITOR_CallExpression_def matchesPattern_def find_None)

theorem require_resolve_unconditional_witness:
  "\<not> in_scope (program_child [] False) plain_state ''require'' \<and>
   ''./x'' \<notin> set (map moduleSpecifier (dependencies (hs_asset plain_state))) \<and>
   VISITOR_CallExpression (\<lambda>n. None) (program_child [] False)
     (MemberExpression (Identifier ''require'') (Identifier ''resolve'') False)
     [StringLiteral ''./x''] plain_state =
   (plain_state, Some (CallExpression (Identifier ''$parcel$require$resolve'')
                         [StringLiteral ''a1'', StringLiteral ''./x'']))"
proof -
  have 1: "\<not> in_scope (program_child [] False) plain_state ''require''"
    by (simp add: in_scope_def hasBinding_def program_child_def plain_state_def)
  have 2: "''./x'' \<notin> set (map moduleSpecifier (dependencies (hs_asset plain_state)))"
    by (simp add: plain_state_def example_asset_def)
  show ?thesis
    using 1 2 require_resolve_unconditional [OF 1, of "\<lambda>n. None" "''./x''"]
    by (simp add: plain_state_def example_asset_def)
qed









section \<open>The scenario \<^verbatim>\<open>exports.foo = 1\<close>\<close>











section \<open>The scenario of the destructured dynamic import\<close>












end
